theory Spec2Isabelle
  imports Complex_Main "HOL-Library.Sublist"
begin

section \<open>JavaScript values\<close>

text \<open>
  A JavaScript string is a sequence of UTF-16 code units. A code unit is modelled as a
  natural number, so that \<open>length\<close>, \<open>includes\<close> and the regular expression of the
  security scanner count what the engine counts. \<open>lit\<close> embeds an ASCII literal of the
  source text.
\<close>

type_synonym jsstring = "nat list"

definition lit :: "string \<Rightarrow> jsstring" where
  "lit s = map of_char s"

text \<open>\<open>String.prototype.includes\<close>: the pattern occurs as a contiguous run.\<close>

fun js_includes :: "'a list \<Rightarrow> 'a list \<Rightarrow> bool" where
  "js_includes [] p = (p = [])"
| "js_includes (x # xs) p = (prefix p (x # xs) \<or> js_includes xs p)"

text \<open>
  The values that reach the analyzer from the explorer: what \<open>JSON.parse\<close> can build,
  and \<open>undefined\<close> for a property that is missing. An object is an association list,
  read with \<open>map_of\<close>. A number of a JSON document is a finite double, hence a rational.
\<close>

datatype json =
    JUndefined
  | JNull
  | JBool bool
  | JNum rat
  | JStr jsstring
  | JArr "json list"
  | JObj "(jsstring \<times> json) list"

text \<open>
  What a rejected promise or a \<open>throw\<close> carries: an \<open>Error\<close> the analyzer builds
  itself with the given message, a \<open>TypeError\<close> of the engine, or the error object
  that web3, axios or \<open>JSON.parse\<close> rejects with, told apart by its \<open>message\<close>.
\<close>

datatype exn = Error jsstring | TypeError | Rejected json

text \<open>\<open>await f(...)\<close> followed by the rest of the block: a rejection skips the rest.\<close>

definition thenE :: "exn + 'a \<Rightarrow> ('a \<Rightarrow> exn + 'b) \<Rightarrow> exn + 'b" where
  "thenE r k = (case r of Inl e \<Rightarrow> Inl e | Inr v \<Rightarrow> k v)"

text \<open>ToBoolean.\<close>

fun truthy :: "json \<Rightarrow> bool" where
  "truthy JUndefined = False"
| "truthy JNull = False"
| "truthy (JBool b) = b"
| "truthy (JNum q) = (q \<noteq> 0)"
| "truthy (JStr s) = (s \<noteq> [])"
| "truthy (JArr xs) = True"
| "truthy (JObj kvs) = True"

text \<open>
  \<open>v.k\<close> for a property name \<open>k\<close> that is not an array index. Reading a property of
  \<open>null\<close> or \<open>undefined\<close> throws; strings and arrays own \<open>length\<close>; any other
  name on a primitive or an array is \<open>undefined\<close>.
\<close>

fun get_prop :: "json \<Rightarrow> jsstring \<Rightarrow> exn + json" where
  "get_prop JUndefined k = Inl TypeError"
| "get_prop JNull k = Inl TypeError"
| "get_prop (JBool b) k = Inr JUndefined"
| "get_prop (JNum q) k = Inr JUndefined"
| "get_prop (JStr s) k =
     Inr (if k = lit ''length'' then JNum (of_nat (length s)) else JUndefined)"
| "get_prop (JArr xs) k =
     Inr (if k = lit ''length'' then JNum (of_nat (length xs)) else JUndefined)"
| "get_prop (JObj kvs) k =
     Inr (case map_of kvs k of None \<Rightarrow> JUndefined | Some v \<Rightarrow> v)"

text \<open>\<open>v[0]\<close>.\<close>

fun get_index0 :: "json \<Rightarrow> exn + json" where
  "get_index0 JUndefined = Inl TypeError"
| "get_index0 JNull = Inl TypeError"
| "get_index0 (JBool b) = Inr JUndefined"
| "get_index0 (JNum q) = Inr JUndefined"
| "get_index0 (JStr s) = Inr (case s of [] \<Rightarrow> JUndefined | c # _ \<Rightarrow> JStr [c])"
| "get_index0 (JArr xs) = Inr (case xs of [] \<Rightarrow> JUndefined | x # _ \<Rightarrow> x)"
| "get_index0 (JObj kvs) =
     Inr (case map_of kvs (lit ''0'') of None \<Rightarrow> JUndefined | Some v \<Rightarrow> v)"

section \<open>The node and the explorer\<close>

text \<open>
  The analyzer talks to an Ethereum node through web3 and to Etherscan through axios.
  Each call site is a function from what the call is given to what it resolves to or
  rejects with. The two \<open>getCode\<close> calls of one audit are separate fields, since the
  node may answer them differently. The Etherscan requests are keyed by the value that
  is spliced into the URL, and resolve to the \<open>data\<close> of the response.
  \<open>toChecksumAddress\<close> and \<open>fromWei\<close> are pure library functions.
  \<open>gt2_coerced\<close> is the outcome of \<open>v > 2\<close> for a \<open>v\<close> that must first be
  converted from a string, array or object.
\<close>

record env =
  isAddress :: "jsstring \<Rightarrow> bool"
  toChecksumAddress :: "jsstring \<Rightarrow> jsstring"
  getCode_check :: "jsstring \<Rightarrow> exn + jsstring"
  getCode_fetch :: "jsstring \<Rightarrow> exn + jsstring"
  getBalance :: "jsstring \<Rightarrow> exn + int"
  fromWei :: "int \<Rightarrow> jsstring"
  getTransactionCount :: "jsstring \<Rightarrow> exn + int"
  get_contractcreation :: "jsstring \<Rightarrow> exn + json"
  get_transaction :: "json \<Rightarrow> exn + json"
  get_blockreward :: "json \<Rightarrow> exn + json"
  get_sourcecode :: "jsstring \<Rightarrow> exn + json"
  JSON_parse :: "json \<Rightarrow> exn + json"
  gt2_coerced :: "json \<Rightarrow> exn + bool"

section \<open>checkIfContract\<close>

definition checkIfContract :: "env \<Rightarrow> jsstring \<Rightarrow> exn + bool" where
  "checkIfContract w address =
     (case getCode_check w address of
        Inl error \<Rightarrow> Inr False
      | Inr code \<Rightarrow> Inr (code \<noteq> lit ''0x'' \<and> code \<noteq> lit ''0x0''))"

section \<open>detectContractTypeFromBytecode\<close>

definition detectContractTypeFromBytecode :: "jsstring \<Rightarrow> jsstring" where
  "detectContractTypeFromBytecode bytecode =
     (if js_includes bytecode (lit ''06fdde03'') \<and> js_includes bytecode (lit ''95d89b41'')
         \<and> js_includes bytecode (lit ''18160ddd'')
      then lit ''Likely Token (ERC20/ERC721)''
      else if js_includes bytecode (lit ''01ffc9a7'')
      then lit ''Supports ERC165 Interface Detection''
      else if js_includes bytecode (lit ''e8a3d485'')
      then lit ''Possible Uniswap-related contract''
      else if js_includes bytecode (lit ''6080604052'')
      then lit ''Solidity 0.4.x+ Contract''
      else lit ''Unknown Contract Type'')"

text \<open>
  The rules as a table, in the order of the source: the selectors that must all occur,
  and the label. \<open>first_label\<close> reads the table top to bottom.
\<close>

definition bytecode_rules :: "(jsstring list \<times> jsstring) list" where
  "bytecode_rules =
     [([lit ''06fdde03'', lit ''95d89b41'', lit ''18160ddd''], lit ''Likely Token (ERC20/ERC721)''),
      ([lit ''01ffc9a7''], lit ''Supports ERC165 Interface Detection''),
      ([lit ''e8a3d485''], lit ''Possible Uniswap-related contract''),
      ([lit ''6080604052''], lit ''Solidity 0.4.x+ Contract'')]"

definition rule_matches :: "jsstring \<Rightarrow> jsstring list \<times> jsstring \<Rightarrow> bool" where
  "rule_matches bytecode rule = list_all (js_includes bytecode) (fst rule)"

fun first_label :: "jsstring \<Rightarrow> (jsstring list \<times> jsstring) list \<Rightarrow> jsstring" where
  "first_label bytecode [] = lit ''Unknown Contract Type''"
| "first_label bytecode (rule # rules) =
     (if rule_matches bytecode rule then snd rule else first_label bytecode rules)"

section \<open>detectContractStandards\<close>

record erc_flags =
  isERC20 :: bool
  isERC721 :: bool
  isERC1155 :: bool

definition erc20Functions :: "jsstring list" where
  "erc20Functions =
     [lit ''totalSupply'', lit ''balanceOf'', lit ''transfer'', lit ''transferFrom'',
      lit ''approve'', lit ''allowance'']"

definition erc721Functions :: "jsstring list" where
  "erc721Functions =
     [lit ''balanceOf'', lit ''ownerOf'', lit ''safeTransferFrom'', lit ''transferFrom'',
      lit ''approve'', lit ''getApproved'', lit ''setApprovalForAll'', lit ''isApprovedForAll'']"

definition erc1155Functions :: "jsstring list" where
  "erc1155Functions =
     [lit ''balanceOf'', lit ''balanceOfBatch'', lit ''setApprovalForAll'',
      lit ''isApprovedForAll'', lit ''safeTransferFrom'', lit ''safeBatchTransferFrom'']"

text \<open>\<open>abi.filter(item => item.type === 'function')\<close>; an entry that is \<open>null\<close> throws.\<close>

fun abi_filter :: "json list \<Rightarrow> exn + json list" where
  "abi_filter [] = Inr []"
| "abi_filter (item # items) =
     thenE (get_prop item (lit ''type'')) (\<lambda>t.
     thenE (abi_filter items) (\<lambda>rest.
       Inr (if t = JStr (lit ''function'') then item # rest else rest)))"

text \<open>\<open>.map(func => func.name)\<close>.\<close>

fun abi_names :: "json list \<Rightarrow> exn + json list" where
  "abi_names [] = Inr []"
| "abi_names (func # funcs) =
     thenE (get_prop func (lit ''name'')) (\<lambda>n.
     thenE (abi_names funcs) (\<lambda>rest. Inr (n # rest)))"

text \<open>
  The three \<open>every\<close>/\<open>includes\<close> checks on the extracted names. \<open>Array.prototype.includes\<close>
  finds a string among the names when one of them is that string.
\<close>

definition check_standards :: "json list \<Rightarrow> erc_flags" where
  "check_standards functionNames =
     \<lparr>isERC20 = list_all (\<lambda>func. JStr func \<in> set functionNames) erc20Functions,
      isERC721 = list_all (\<lambda>func. JStr func \<in> set functionNames) erc721Functions,
      isERC1155 = list_all (\<lambda>func. JStr func \<in> set functionNames) erc1155Functions\<rparr>"

definition detectContractStandards :: "jsstring \<Rightarrow> json \<Rightarrow> exn + erc_flags" where
  "detectContractStandards address abi =
     (case abi of
        JArr entries \<Rightarrow>
          thenE (abi_filter entries) (\<lambda>funcs.
          thenE (abi_names funcs) (\<lambda>functionNames.
            Inr (check_standards functionNames)))
      | _ \<Rightarrow> Inr \<lparr>isERC20 = False, isERC721 = False, isERC1155 = False\<rparr>)"

text \<open>
  What the checks are measured against: the names of the entries of the ABI whose
  \<open>type\<close> is \<open>function\<close>. Only an array has entries, and an entry that is
  \<open>null\<close> cannot be read.
\<close>

definition nullish :: "json \<Rightarrow> bool" where
  "nullish v = (v = JNull \<or> v = JUndefined)"

definition is_function_entry :: "json \<Rightarrow> bool" where
  "is_function_entry e = (get_prop e (lit ''type'') = Inr (JStr (lit ''function'')))"

definition function_entry_names :: "json \<Rightarrow> json set" where
  "function_entry_names abi =
     (case abi of
        JArr entries \<Rightarrow>
          {n. \<exists>e\<in>set entries. is_function_entry e \<and> get_prop e (lit ''name'') = Inr n}
      | _ \<Rightarrow> {})"

definition abi_readable :: "json \<Rightarrow> bool" where
  "abi_readable abi =
     (case abi of JArr entries \<Rightarrow> list_all (\<lambda>e. \<not> nullish e) entries | _ \<Rightarrow> True)"

section \<open>analyzeContractSecurity\<close>

record finding =
  severity :: jsstring
  issue :: jsstring
  description :: jsstring

record security_analysis =
  issuesFound :: bool
  issues :: "finding list"

text \<open>
  The regular expression \<open>/require\s*\(\s*.*\.call\s*\(/g\<close>. \<open>\s\<close> is the white space
  and the line terminators of ECMAScript, \<open>.\<close> is any code unit but a line terminator.
  \<open>sourceCode.match\<close> is \<open>null\<close> exactly when no position of the text starts a match.
\<close>

definition is_line_terminator :: "nat \<Rightarrow> bool" where
  "is_line_terminator c = (c = 10 \<or> c = 13 \<or> c = 8232 \<or> c = 8233)"

definition is_space :: "nat \<Rightarrow> bool" where
  "is_space c =
     (c = 9 \<or> c = 11 \<or> c = 12 \<or> c = 32 \<or> c = 160 \<or> c = 5760 \<or> (8192 \<le> c \<and> c \<le> 8202)
      \<or> c = 8239 \<or> c = 8287 \<or> c = 12288 \<or> c = 65279 \<or> is_line_terminator c)"

text \<open>\<open>\.call\s*\(\<close> at the start of the text.\<close>

definition re_call :: "jsstring \<Rightarrow> bool" where
  "re_call s =
     (prefix (lit ''.call'') s \<and>
      (case dropWhile is_space (drop 5 s) of [] \<Rightarrow> False | c # _ \<Rightarrow> c = 40))"

text \<open>\<open>.*\.call\s*\(\<close> at the start of the text.\<close>

fun re_any_call :: "jsstring \<Rightarrow> bool" where
  "re_any_call [] = re_call []"
| "re_any_call (c # cs) = (re_call (c # cs) \<or> (\<not> is_line_terminator c \<and> re_any_call cs))"

text \<open>\<open>\s*.*\.call\s*\(\<close> at the start of the text.\<close>

fun re_space_any_call :: "jsstring \<Rightarrow> bool" where
  "re_space_any_call [] = re_any_call []"
| "re_space_any_call (c # cs) = (re_any_call (c # cs) \<or> (is_space c \<and> re_space_any_call cs))"

text \<open>The whole expression at the start of the text.\<close>

definition re_require_call :: "jsstring \<Rightarrow> bool" where
  "re_require_call s =
     (prefix (lit ''require'') s \<and>
      (case dropWhile is_space (drop 7 s) of
         [] \<Rightarrow> False
       | c # rest \<Rightarrow> c = 40 \<and> re_space_any_call rest))"

fun js_match_require_call :: "jsstring \<Rightarrow> bool" where
  "js_match_require_call [] = re_require_call []"
| "js_match_require_call (c # cs) = (re_require_call (c # cs) \<or> js_match_require_call cs)"

definition reentrancy_finding :: finding where
  "reentrancy_finding =
     \<lparr>severity = lit ''High'',
      issue = lit ''Potential reentrancy vulnerability'',
      description = lit ''Contract uses call.value without ReentrancyGuard or checks-effects-interactions pattern''\<rparr>"

definition tx_origin_finding :: finding where
  "tx_origin_finding =
     \<lparr>severity = lit ''Medium'',
      issue = lit ''tx.origin used for authentication'',
      description = lit ''Using tx.origin for authentication can be exploited by phishing attacks''\<rparr>"

definition unchecked_call_finding :: finding where
  "unchecked_call_finding =
     \<lparr>severity = lit ''Medium'',
      issue = lit ''Unchecked external call'',
      description = lit ''External calls without checking return value can lead to silent failures''\<rparr>"

definition timestamp_finding :: finding where
  "timestamp_finding =
     \<lparr>severity = lit ''Low'',
      issue = lit ''Timestamp dependence'',
      description = lit ''Using block.timestamp for critical logic can be manipulated by miners''\<rparr>"

definition selfdestruct_finding :: finding where
  "selfdestruct_finding =
     \<lparr>severity = lit ''High'',
      issue = lit ''Unprotected self-destruct'',
      description = lit ''Self-destruct functionality found - ensure it has proper access controls''\<rparr>"

text \<open>The function on a source text: five \<open>if\<close> statements, each pushing onto \<open>issues\<close>.\<close>

definition analyzeContractSecurity :: "jsstring \<Rightarrow> security_analysis" where
  "analyzeContractSecurity sourceCode =
     (let issues0 = [];
          issues1 =
            (if js_includes sourceCode (lit ''call.value'')
                \<and> \<not> js_includes sourceCode (lit ''ReentrancyGuard'')
             then issues0 @ [reentrancy_finding] else issues0);
          issues2 =
            (if js_includes sourceCode (lit ''tx.origin'')
             then issues1 @ [tx_origin_finding] else issues1);
          issues3 =
            (if (js_includes sourceCode (lit ''.call('')
                 \<or> js_includes sourceCode (lit ''.delegatecall(''))
                \<and> \<not> js_match_require_call sourceCode
             then issues2 @ [unchecked_call_finding] else issues2);
          issues4 =
            (if js_includes sourceCode (lit ''block.timestamp'')
                \<or> js_includes sourceCode (lit ''now'')
             then issues3 @ [timestamp_finding] else issues3);
          issues5 =
            (if js_includes sourceCode (lit ''selfdestruct'')
                \<or> js_includes sourceCode (lit ''suicide'')
             then issues4 @ [selfdestruct_finding] else issues4)
      in \<lparr>issuesFound = (length issues5 > 0), issues = issues5\<rparr>)"

text \<open>
  The same function when the explorer's \<open>SourceCode\<close> is an array: \<open>includes\<close> is then
  \<open>Array.prototype.includes\<close>, and an array has no \<open>match\<close>, so the third rule
  throws as soon as its first half holds.
\<close>

definition analyzeContractSecurity_array :: "json list \<Rightarrow> exn + security_analysis" where
  "analyzeContractSecurity_array sourceCode =
     (let inc = (\<lambda>p. JStr (lit p) \<in> set sourceCode);
          issues0 = [];
          issues1 =
            (if inc ''call.value'' \<and> \<not> inc ''ReentrancyGuard''
             then issues0 @ [reentrancy_finding] else issues0);
          issues2 = (if inc ''tx.origin'' then issues1 @ [tx_origin_finding] else issues1)
      in if inc ''.call('' \<or> inc ''.delegatecall('' then Inl TypeError
         else
           (let issues4 =
                  (if inc ''block.timestamp'' \<or> inc ''now''
                   then issues2 @ [timestamp_finding] else issues2);
                issues5 =
                  (if inc ''selfdestruct'' \<or> inc ''suicide''
                   then issues4 @ [selfdestruct_finding] else issues4)
            in Inr \<lparr>issuesFound = (length issues5 > 0), issues = issues5\<rparr>))"

text \<open>
  The call \<open>analyzeContractSecurity(verificationInfo.sourceCode)\<close> on whatever the
  explorer sent: any value that is neither a string nor an array has no callable
  \<open>includes\<close>.
\<close>

definition call_analyzeContractSecurity :: "json \<Rightarrow> exn + security_analysis" where
  "call_analyzeContractSecurity sourceCode =
     (case sourceCode of
        JStr s \<Rightarrow> Inr (analyzeContractSecurity s)
      | JArr xs \<Rightarrow> analyzeContractSecurity_array xs
      | _ \<Rightarrow> Inl TypeError)"

text \<open>
  The rules as a table in the order of the source: the test on the text, and the finding.
\<close>

definition security_rules :: "((jsstring \<Rightarrow> bool) \<times> finding) list" where
  "security_rules =
     [(\<lambda>s. js_includes s (lit ''call.value'') \<and> \<not> js_includes s (lit ''ReentrancyGuard''),
       reentrancy_finding),
      (\<lambda>s. js_includes s (lit ''tx.origin''), tx_origin_finding),
      (\<lambda>s. (js_includes s (lit ''.call('') \<or> js_includes s (lit ''.delegatecall(''))
            \<and> \<not> js_match_require_call s,
       unchecked_call_finding),
      (\<lambda>s. js_includes s (lit ''block.timestamp'') \<or> js_includes s (lit ''now''),
       timestamp_finding),
      (\<lambda>s. js_includes s (lit ''selfdestruct'') \<or> js_includes s (lit ''suicide''),
       selfdestruct_finding)]"

section \<open>getContractCreationInfo\<close>

record creation_info =
  ci_contractCreator :: json
  ci_txHash :: json
  ci_timestamp :: json

text \<open>
  The inner \<open>try\<close> block, which looks up the creation transaction and then its block.
  Its value is what \<open>timestamp\<close> holds afterwards; the \<open>catch\<close> leaves \<open>null\<close>.
\<close>

definition creation_timestamp_try :: "env \<Rightarrow> json \<Rightarrow> exn + json" where
  "creation_timestamp_try w txHash =
     thenE (get_transaction w txHash) (\<lambda>txData.
     thenE (get_prop txData (lit ''result'')) (\<lambda>txResult.
       if \<not> truthy txResult then Inr JNull
       else
         thenE (get_prop txResult (lit ''blockNumber'')) (\<lambda>blockNumber.
           if \<not> truthy blockNumber then Inr JNull
           else
             thenE (get_blockreward w blockNumber) (\<lambda>blockData.
             thenE (get_prop blockData (lit ''status'')) (\<lambda>blockStatus.
               if blockStatus \<noteq> JStr (lit ''1'') then Inr JNull
               else
                 thenE (get_prop blockData (lit ''result'')) (\<lambda>blockResult.
                   if \<not> truthy blockResult then Inr JNull
                   else get_prop blockResult (lit ''timeStamp'')))))))"

definition creation_timestamp :: "env \<Rightarrow> json \<Rightarrow> json" where
  "creation_timestamp w txHash =
     (case creation_timestamp_try w txHash of Inl error \<Rightarrow> JNull | Inr timestamp \<Rightarrow> timestamp)"

text \<open>The outer \<open>try\<close> block; \<open>None\<close> is the \<open>null\<close> it returns.\<close>

definition getContractCreationInfo_try :: "env \<Rightarrow> jsstring \<Rightarrow> exn + creation_info option" where
  "getContractCreationInfo_try w address =
     thenE (get_contractcreation w address) (\<lambda>data.
     thenE (get_prop data (lit ''status'')) (\<lambda>status.
       if status \<noteq> JStr (lit ''1'') then Inr None
       else
         thenE (get_prop data (lit ''result'')) (\<lambda>result.
           if \<not> truthy result then Inr None
           else
             thenE (get_index0 result) (\<lambda>first.
               if \<not> truthy first then Inr None
               else
                 thenE (get_prop first (lit ''txHash'')) (\<lambda>txHash.
                   let timestamp = creation_timestamp w txHash in
                   thenE (get_prop first (lit ''contractCreator'')) (\<lambda>creator.
                     Inr (Some \<lparr>ci_contractCreator = creator, ci_txHash = txHash,
                                ci_timestamp = timestamp\<rparr>)))))))"

definition getContractCreationInfo :: "env \<Rightarrow> jsstring \<Rightarrow> creation_info option" where
  "getContractCreationInfo w address =
     (case getContractCreationInfo_try w address of Inl error \<Rightarrow> None | Inr info \<Rightarrow> info)"

section \<open>checkIfVerified\<close>

record verification_info =
  vi_isVerified :: json
  vi_contractName :: json
  vi_sourceCode :: json
  vi_abi :: json

text \<open>\<open>{ isVerified: false }\<close>: the other properties are missing.\<close>

definition not_verified :: verification_info where
  "not_verified =
     \<lparr>vi_isVerified = JBool False, vi_contractName = JUndefined, vi_sourceCode = JUndefined,
      vi_abi = JUndefined\<rparr>"

text \<open>\<open>v > 2\<close>: a number is compared, \<open>undefined\<close> is NaN, \<open>null\<close> and booleans are below 2.\<close>

definition js_gt2 :: "env \<Rightarrow> json \<Rightarrow> exn + bool" where
  "js_gt2 w v =
     (case v of
        JNum q \<Rightarrow> Inr (q > 2)
      | JUndefined \<Rightarrow> Inr False
      | JNull \<Rightarrow> Inr False
      | JBool b \<Rightarrow> Inr False
      | _ \<Rightarrow> gt2_coerced w v)"

text \<open>
  \<open>contractData.SourceCode && contractData.SourceCode !== '{}' &&
  contractData.SourceCode.length > 2\<close>: a falsy first operand is the value of the whole.
\<close>

definition source_is_verified :: "env \<Rightarrow> json \<Rightarrow> exn + json" where
  "source_is_verified w src =
     (if \<not> truthy src then Inr src
      else if src = JStr (lit ''{}'') then Inr (JBool False)
      else
        thenE (get_prop src (lit ''length'')) (\<lambda>n.
        thenE (js_gt2 w n) (\<lambda>b. Inr (JBool b))))"

definition checkIfVerified_try :: "env \<Rightarrow> jsstring \<Rightarrow> exn + verification_info" where
  "checkIfVerified_try w address =
     thenE (get_sourcecode w address) (\<lambda>data.
     thenE (get_prop data (lit ''status'')) (\<lambda>status.
       if status \<noteq> JStr (lit ''1'') then Inr not_verified
       else
         thenE (get_prop data (lit ''result'')) (\<lambda>result.
           if \<not> truthy result then Inr not_verified
           else
             thenE (get_index0 result) (\<lambda>contractData.
               if \<not> truthy contractData then Inr not_verified
               else
                 thenE (get_prop contractData (lit ''SourceCode'')) (\<lambda>src.
                 thenE (source_is_verified w src) (\<lambda>verified.
                 thenE (get_prop contractData (lit ''ContractName'')) (\<lambda>name.
                 thenE (if truthy verified
                        then thenE (get_prop contractData (lit ''ABI'')) (JSON_parse w)
                        else Inr JNull) (\<lambda>parsed.
                   Inr \<lparr>vi_isVerified = verified, vi_contractName = name,
                        vi_sourceCode = src, vi_abi = parsed\<rparr>))))))))"

definition checkIfVerified :: "env \<Rightarrow> jsstring \<Rightarrow> verification_info" where
  "checkIfVerified w address =
     (case checkIfVerified_try w address of Inl error \<Rightarrow> not_verified | Inr info \<Rightarrow> info)"

section \<open>analyzeAddress\<close>

text \<open>
  The \<open>error\<close> property of a report: \<open>null\<close>, a string, or the \<open>message\<close> of what
  was caught.
\<close>

datatype error_note = NoNote | Note jsstring | MessageOf exn

definition message :: "exn \<Rightarrow> error_note" where
  "message e = (case e of Error m \<Rightarrow> Note m | _ \<Rightarrow> MessageOf e)"

text \<open>
  The report object. A property that the code sets to \<open>null\<close> or leaves out and that
  holds a JSON value otherwise is \<open>JNull\<close> or \<open>JUndefined\<close>; a property that only
  some paths add is an option, \<open>None\<close> where it is missing (\<open>contractCode\<close>:
  where it is \<open>null\<close>).
\<close>

record report =
  address :: jsstring
  isContract :: bool
  isVerified :: json
  contractName :: json
  contractCreator :: json
  creationTx :: json
  creationTimestamp :: json
  contractCode :: "jsstring option"
  sourceCode :: json
  abi :: json
  error :: error_note
  ethBalance :: "jsstring option"
  transactionCount :: "int option"
  standards :: "erc_flags option"
  probableType :: "jsstring option"
  securityAnalysis :: "security_analysis option"

text \<open>The object the \<open>catch\<close> of \<open>analyzeAddress\<close> returns.\<close>

definition fallback_report :: "jsstring \<Rightarrow> exn \<Rightarrow> report" where
  "fallback_report addr e =
     \<lparr>address = addr, isContract = False, isVerified = JBool False,
      contractName = JUndefined, contractCreator = JUndefined, creationTx = JUndefined,
      creationTimestamp = JUndefined, contractCode = None, sourceCode = JNull,
      abi = JUndefined, error = message e, ethBalance = None, transactionCount = None,
      standards = None, probableType = None, securityAnalysis = None\<rparr>"

text \<open>The \<open>result\<close> object as first built inside the \<open>try\<close>.\<close>

definition initial_result :: "jsstring \<Rightarrow> bool \<Rightarrow> report" where
  "initial_result formattedAddress contract =
     \<lparr>address = formattedAddress, isContract = contract, isVerified = JBool False,
      contractName = JNull, contractCreator = JNull, creationTx = JNull,
      creationTimestamp = JNull, contractCode = None, sourceCode = JNull,
      abi = JNull, error = NoNote, ethBalance = None, transactionCount = None,
      standards = None, probableType = None, securityAnalysis = None\<rparr>"

text \<open>The early return for an address without code.\<close>

definition analyze_account :: "env \<Rightarrow> jsstring \<Rightarrow> report \<Rightarrow> exn + report" where
  "analyze_account w formattedAddress result0 =
     (let result1 = result0\<lparr>error := Note (lit ''Address is not a contract'')\<rparr> in
      thenE (getBalance w formattedAddress) (\<lambda>balance.
        let result2 = result1\<lparr>ethBalance := Some (fromWei w balance)\<rparr> in
        thenE (getTransactionCount w formattedAddress) (\<lambda>txCount.
          Inr (result2\<lparr>transactionCount := Some txCount\<rparr>))))"

text \<open>The rest of the \<open>try\<close> block, for an address with code.\<close>

definition analyze_contract :: "env \<Rightarrow> jsstring \<Rightarrow> report \<Rightarrow> exn + report" where
  "analyze_contract w formattedAddress result0 =
     (let result1 =
            (case getContractCreationInfo w formattedAddress of
               None \<Rightarrow> result0
             | Some creationInfo \<Rightarrow>
                 result0\<lparr>contractCreator := ci_contractCreator creationInfo,
                         creationTx := ci_txHash creationInfo,
                         creationTimestamp := ci_timestamp creationInfo\<rparr>);
          verificationInfo = checkIfVerified w formattedAddress;
          result2 = result1\<lparr>isVerified := vi_isVerified verificationInfo\<rparr>
      in
      thenE (getCode_fetch w formattedAddress) (\<lambda>bytecode.
        let result3 = result2\<lparr>contractCode := Some bytecode\<rparr> in
        thenE
          (if truthy (vi_isVerified verificationInfo)
           then
             thenE (detectContractStandards formattedAddress (vi_abi verificationInfo))
               (\<lambda>detected.
                 Inr (result3\<lparr>sourceCode := vi_sourceCode verificationInfo,
                              contractName := vi_contractName verificationInfo,
                              abi := vi_abi verificationInfo,
                              standards := Some detected\<rparr>))
           else
             Inr (result3\<lparr>error := Note (lit ''Contract is not verified on Etherscan''),
                          probableType := Some (detectContractTypeFromBytecode bytecode)\<rparr>))
          (\<lambda>result4.
            if truthy (vi_isVerified verificationInfo) \<and> truthy (vi_sourceCode verificationInfo)
            then
              thenE (call_analyzeContractSecurity (vi_sourceCode verificationInfo))
                (\<lambda>analysis. Inr (result4\<lparr>securityAnalysis := Some analysis\<rparr>))
            else Inr result4)))"

definition analyzeAddress_try :: "env \<Rightarrow> jsstring \<Rightarrow> exn + report" where
  "analyzeAddress_try w addr =
     (if \<not> isAddress w addr then Inl (Error (lit ''Invalid Ethereum address format''))
      else
        let formattedAddress = toChecksumAddress w addr in
        thenE (checkIfContract w formattedAddress) (\<lambda>contract.
          let result = initial_result formattedAddress contract in
          if \<not> contract then analyze_account w formattedAddress result
          else analyze_contract w formattedAddress result))"

definition analyzeAddress :: "env \<Rightarrow> jsstring \<Rightarrow> report" where
  "analyzeAddress w addr =
     (case analyzeAddress_try w addr of
        Inl e \<Rightarrow> fallback_report addr e
      | Inr result \<Rightarrow> result)"

section \<open>Scenarios\<close>

text \<open>
  Concrete environments on which the results below are evaluated. In \<open>unreachable\<close>
  every request is refused; the others answer some of them.
\<close>

definition refused :: exn where
  "refused = Rejected (JStr (lit ''connect ECONNREFUSED''))"

definition raw_address :: jsstring where
  "raw_address = lit ''0xd8da6bf26964af9d7eed9e03e53415d37aa96045''"

definition checksummed_address :: jsstring where
  "checksummed_address = lit ''0xd8dA6BF26964aF9D7eEd9e03E53415D37aA96045''"

definition unreachable :: env where
  "unreachable =
     \<lparr>isAddress = (\<lambda>a. a = raw_address \<or> a = checksummed_address),
      toChecksumAddress = (\<lambda>a. if a = raw_address then checksummed_address else a),
      getCode_check = (\<lambda>a. Inl refused),
      getCode_fetch = (\<lambda>a. Inl refused),
      getBalance = (\<lambda>a. Inl refused),
      fromWei = (\<lambda>b. if b = 1000000000000000000 then lit ''1'' else lit ''0''),
      getTransactionCount = (\<lambda>a. Inl refused),
      get_contractcreation = (\<lambda>a. Inl refused),
      get_transaction = (\<lambda>h. Inl refused),
      get_blockreward = (\<lambda>n. Inl refused),
      get_sourcecode = (\<lambda>a. Inl refused),
      JSON_parse = (\<lambda>v. Inl (Rejected (JStr (lit ''Unexpected token'')))),
      gt2_coerced = (\<lambda>v. Inr False)\<rparr>"

text \<open>An externally owned account: no code, one ether, seven transactions.\<close>

definition account_env :: env where
  "account_env =
     unreachable\<lparr>getCode_check := (\<lambda>a. Inr (lit ''0x'')),
                 getBalance := (\<lambda>a. Inr 1000000000000000000),
                 getTransactionCount := (\<lambda>a. Inr 7)\<rparr>"

text \<open>The same account when the node answers \<open>getCode\<close> and nothing else.\<close>

definition balance_down_env :: env where
  "balance_down_env = unreachable\<lparr>getCode_check := (\<lambda>a. Inr (lit ''0x''))\<rparr>"

text \<open>The node refuses the \<open>getCode\<close> of the contract check and answers the rest.\<close>

definition node_down_env :: env where
  "node_down_env =
     unreachable\<lparr>getBalance := (\<lambda>a. Inr 1000000000000000000),
                 getTransactionCount := (\<lambda>a. Inr 7)\<rparr>"

text \<open>A contract whose code is served to the contract check and refused afterwards.\<close>

definition fetch_down_env :: env where
  "fetch_down_env = unreachable\<lparr>getCode_check := (\<lambda>a. Inr (lit ''0x6080''))\<rparr>"

text \<open>
  A verified contract with the six ERC-20 functions. The explorer knows its creation
  and its source; the transaction and block lookups are refused.
\<close>

definition creation_response :: json where
  "creation_response =
     JObj [(lit ''status'', JStr (lit ''1'')),
           (lit ''result'',
            JArr [JObj [(lit ''contractCreator'', JStr (lit ''0xab'')),
                        (lit ''txHash'', JStr (lit ''0xcd''))]])]"

definition source_response :: json where
  "source_response =
     JObj [(lit ''status'', JStr (lit ''1'')),
           (lit ''result'',
            JArr [JObj [(lit ''SourceCode'', JStr (lit ''contract T {}'')),
                        (lit ''ABI'', JStr (lit ''[..]'')),
                        (lit ''ContractName'', JStr (lit ''T''))]])]"

definition erc20_entries :: "json list" where
  "erc20_entries =
     map (\<lambda>n. JObj [(lit ''type'', JStr (lit ''function'')), (lit ''name'', JStr n)])
       erc20Functions"

definition erc20_abi :: json where
  "erc20_abi = JArr erc20_entries"

definition ownerOf_entry :: json where
  "ownerOf_entry =
     JObj [(lit ''type'', JStr (lit ''function'')), (lit ''name'', JStr (lit ''ownerOf''))]"

definition verified_env :: env where
  "verified_env =
     unreachable\<lparr>getCode_check := (\<lambda>a. Inr (lit ''0x6080'')),
                 getCode_fetch := (\<lambda>a. Inr (lit ''0x6080'')),
                 get_contractcreation := (\<lambda>a. Inr creation_response),
                 get_sourcecode := (\<lambda>a. Inr source_response),
                 JSON_parse :=
                   (\<lambda>v. if v = JStr (lit ''[..]'') then Inr erc20_abi
                        else Inl (Rejected (JStr (lit ''Unexpected token''))))\<rparr>"

section \<open>Strings and the bytecode rules\<close>

lemma includes_sublist: "js_includes s p \<longleftrightarrow> sublist p s"
  by (induction s) (auto simp: sublist_Cons_right)

lemma detect_is_first_label:
  "detectContractTypeFromBytecode b = first_label b bytecode_rules"
  by (simp add: detectContractTypeFromBytecode_def bytecode_rules_def rule_matches_def)

lemma first_label_first:
  "i < length rs \<Longrightarrow> rule_matches b (rs ! i) \<Longrightarrow> \<forall>k<i. \<not> rule_matches b (rs ! k)
   \<Longrightarrow> first_label b rs = snd (rs ! i)"
proof (induction rs arbitrary: i)
  case Nil
  then show ?case by simp
next
  case (Cons r rs)
  show ?case
  proof (cases i)
    case 0
    with Cons.prems show ?thesis by simp
  next
    case (Suc m)
    with Cons.prems have "\<not> rule_matches b r" by auto
    moreover have "first_label b rs = snd (rs ! m)"
      using Cons.prems Suc by (intro Cons.IH) auto
    ultimately show ?thesis using Suc by simp
  qed
qed

lemma first_label_none:
  "\<forall>r\<in>set rs. \<not> rule_matches b r \<Longrightarrow> first_label b rs = lit ''Unknown Contract Type''"
  by (induction rs) auto

lemma first_label_earlier:
  "i < length rs \<Longrightarrow> rule_matches b (rs ! i) \<Longrightarrow> \<exists>k\<le>i. first_label b rs = snd (rs ! k)"
proof (induction rs arbitrary: i)
  case Nil
  then show ?case by simp
next
  case (Cons r rs)
  show ?case
  proof (cases "rule_matches b r")
    case True
    then have "first_label b (r # rs) = snd ((r # rs) ! 0)" by simp
    then show ?thesis by blast
  next
    case False
    with Cons.prems obtain m where m: "i = Suc m" by (cases i) auto
    with Cons.prems obtain k where "k \<le> m" "first_label b rs = snd (rs ! k)"
      using Cons.IH[of m] by auto
    with False m have "Suc k \<le> i \<and> first_label b (r # rs) = snd ((r # rs) ! Suc k)" by simp
    then show ?thesis by blast
  qed
qed

lemma first_label_not_later:
  assumes "distinct (map snd rs)" "i < j" "j < length rs" "rule_matches b (rs ! i)"
  shows "first_label b rs \<noteq> snd (rs ! j)"
proof -
  from assms obtain k where k: "k \<le> i" "first_label b rs = snd (rs ! k)"
    using first_label_earlier[of i rs b] by auto
  have "k < length (map snd rs)" "j < length (map snd rs)" "k \<noteq> j"
    using assms k by auto
  with assms(1) have "map snd rs ! k \<noteq> map snd rs ! j"
    by (simp only: nth_eq_iff_index_eq not_False_eq_True)
  moreover have "map snd rs ! k = snd (rs ! k)" "map snd rs ! j = snd (rs ! j)"
    using assms k by auto
  ultimately show ?thesis using k by simp
qed

lemma bytecode_labels_distinct: "distinct (map snd bytecode_rules)"
  by (simp add: bytecode_rules_def lit_def)

text \<open>
  C4. \<open>detectContractTypeFromBytecode\<close> reads its rules in the declared order and
  returns the label of the first rule that matches: a matching rule with no matching
  rule before it gives the label; of two matching rules the later one never does; a
  bytecode with the three selectors \<open>06fdde03\<close>, \<open>95d89b41\<close> and \<open>18160ddd\<close> is
  a likely token; a bytecode no rule matches gets the unknown label.
\<close>

theorem detectContractTypeFromBytecode_first_match:
  "detectContractTypeFromBytecode b = first_label b bytecode_rules
   \<and> (\<forall>i<length bytecode_rules.
        rule_matches b (bytecode_rules ! i) \<and> (\<forall>k<i. \<not> rule_matches b (bytecode_rules ! k))
        \<longrightarrow> detectContractTypeFromBytecode b = snd (bytecode_rules ! i))
   \<and> (\<forall>i j. i < j \<and> j < length bytecode_rules \<and> rule_matches b (bytecode_rules ! i)
          \<and> rule_matches b (bytecode_rules ! j)
        \<longrightarrow> detectContractTypeFromBytecode b \<noteq> snd (bytecode_rules ! j))
   \<and> (js_includes b (lit ''06fdde03'') \<and> js_includes b (lit ''95d89b41'')
        \<and> js_includes b (lit ''18160ddd'')
        \<longrightarrow> detectContractTypeFromBytecode b = lit ''Likely Token (ERC20/ERC721)'')
   \<and> ((\<forall>r\<in>set bytecode_rules. \<not> rule_matches b r)
        \<longrightarrow> detectContractTypeFromBytecode b = lit ''Unknown Contract Type'')"
proof -
  have eq: "detectContractTypeFromBytecode b = first_label b bytecode_rules"
    by (rule detect_is_first_label)
  have token: "js_includes b (lit ''06fdde03'') \<and> js_includes b (lit ''95d89b41'')
        \<and> js_includes b (lit ''18160ddd'')
        \<longrightarrow> detectContractTypeFromBytecode b = lit ''Likely Token (ERC20/ERC721)''"
    by (simp add: detectContractTypeFromBytecode_def)
  show ?thesis
    unfolding eq
    using first_label_first[of _ bytecode_rules b] first_label_none[of bytecode_rules b]
      first_label_not_later[OF bytecode_labels_distinct, of _ _ b] token[unfolded eq]
    by blast
qed

text \<open>
  A bytecode with the ERC-165 selector (second rule) and the Solidity prologue (fourth
  rule) and no token selectors; one with the three token selectors; one with nothing.
\<close>

theorem detectContractTypeFromBytecode_first_match_witness:
  "rule_matches (lit ''0x608060405201ffc9a7'') (bytecode_rules ! 1)
   \<and> rule_matches (lit ''0x608060405201ffc9a7'') (bytecode_rules ! 3)
   \<and> \<not> rule_matches (lit ''0x608060405201ffc9a7'') (bytecode_rules ! 0)
   \<and> detectContractTypeFromBytecode (lit ''0x608060405201ffc9a7'')
       = lit ''Supports ERC165 Interface Detection''
   \<and> detectContractTypeFromBytecode (lit ''0x608060405201ffc9a7'')
       \<noteq> lit ''Solidity 0.4.x+ Contract''
   \<and> detectContractTypeFromBytecode (lit ''0x06fdde0395d89b4118160ddd'')
       = lit ''Likely Token (ERC20/ERC721)''
   \<and> detectContractTypeFromBytecode (lit ''0x00'') = lit ''Unknown Contract Type''"
proof -
  let ?b = "lit ''0x608060405201ffc9a7''"
  have m: "rule_matches ?b (bytecode_rules ! 1)" "rule_matches ?b (bytecode_rules ! 3)"
    "\<not> rule_matches ?b (bytecode_rules ! 0)"
    by (simp_all add: bytecode_rules_def rule_matches_def lit_def)
  have len: "(1::nat) < length bytecode_rules" "(3::nat) < length bytecode_rules"
    by (simp_all add: bytecode_rules_def)
  have l: "snd (bytecode_rules ! 1) = lit ''Supports ERC165 Interface Detection''"
    "snd (bytecode_rules ! 3) = lit ''Solidity 0.4.x+ Contract''"
    by (simp_all add: bytecode_rules_def)
  have first: "\<forall>k<(1::nat). \<not> rule_matches ?b (bytecode_rules ! k)"
    using m(3) by simp
  have tok: "js_includes (lit ''0x06fdde0395d89b4118160ddd'') (lit ''06fdde03'')
     \<and> js_includes (lit ''0x06fdde0395d89b4118160ddd'') (lit ''95d89b41'')
     \<and> js_includes (lit ''0x06fdde0395d89b4118160ddd'') (lit ''18160ddd'')"
    by (simp add: lit_def)
  have none: "\<forall>r\<in>set bytecode_rules. \<not> rule_matches (lit ''0x00'') r"
    by (simp add: bytecode_rules_def rule_matches_def lit_def)
  have "detectContractTypeFromBytecode ?b = snd (bytecode_rules ! 1)"
    using detectContractTypeFromBytecode_first_match[of ?b] m len first by blast
  moreover have "detectContractTypeFromBytecode ?b \<noteq> snd (bytecode_rules ! 3)"
    using detectContractTypeFromBytecode_first_match[of ?b] m len
    by (metis one_less_numeral_iff semiring_norm(77))
  moreover have "detectContractTypeFromBytecode (lit ''0x06fdde0395d89b4118160ddd'')
       = lit ''Likely Token (ERC20/ERC721)''"
    using detectContractTypeFromBytecode_first_match[of "lit ''0x06fdde0395d89b4118160ddd''"] tok
    by blast
  moreover have "detectContractTypeFromBytecode (lit ''0x00'') = lit ''Unknown Contract Type''"
    using detectContractTypeFromBytecode_first_match[of "lit ''0x00''"] none by blast
  ultimately show ?thesis using m l by simp
qed


section \<open>The security scanner\<close>

lemma push_chain:
  "(let issues0 = [];
        issues1 = (if c1 then issues0 @ [f1] else issues0);
        issues2 = (if c2 then issues1 @ [f2] else issues1);
        issues3 = (if c3 then issues2 @ [f3] else issues2);
        issues4 = (if c4 then issues3 @ [f4] else issues3);
        issues5 = (if c5 then issues4 @ [f5] else issues4)
    in g issues5) =
   g (map snd (filter fst [(c1, f1), (c2, f2), (c3, f3), (c4, f4), (c5, f5)]))"
  by (simp add: Let_def)

lemma issues_table:
  "issues (analyzeContractSecurity s) = map snd (filter (\<lambda>r. fst r s) security_rules)"
  unfolding analyzeContractSecurity_def push_chain
  by (simp add: security_rules_def)

lemma issuesFound_iff:
  "issuesFound (analyzeContractSecurity s) = (issues (analyzeContractSecurity s) \<noteq> [])"
  unfolding analyzeContractSecurity_def push_chain by simp

lemma finding_titles_distinct: "distinct (map (issue \<circ> snd) security_rules)"
  by (simp add: security_rules_def reentrancy_finding_def tx_origin_finding_def
      unchecked_call_finding_def timestamp_finding_def selfdestruct_finding_def lit_def)

lemma count_filter_distinct:
  "distinct (map f xs) \<Longrightarrow> x \<in> set xs \<Longrightarrow>
   length (filter (\<lambda>y. f y = f x) (filter P xs)) = (if P x then 1 else 0)"
proof (induction xs)
  case Nil
  then show ?case by simp
next
  case (Cons a xs)
  show ?case
  proof (cases "a = x")
    case True
    have "f x \<notin> f ` set xs"
      using Cons.prems True by simp
    then have "\<forall>y\<in>set xs. f y \<noteq> f x"
      by (metis imageI)
    then have "filter (\<lambda>y. f y = f x) (filter P xs) = []"
      by (simp add: filter_empty_conv)
    with True show ?thesis by simp
  next
    case False
    with Cons.prems have "x \<in> set xs" "f a \<noteq> f x" "distinct (map f xs)" by auto
    with Cons.IH show ?thesis by (auto split: if_splits)
  qed
qed

text \<open>
  C5. \<open>analyzeContractSecurity\<close> tests all five rules, each on its own condition, and
  returns the findings of the rules that hold in the order of declaration (reentrancy,
  tx.origin, unchecked external call, timestamp dependence, self-destruct): its list is
  the rule table filtered by the conditions, so a rule's finding occurs once when its
  condition holds and not at all otherwise. A source text with \<open>call.value\<close> and without
  \<open>ReentrancyGuard\<close> has exactly one finding titled "Potential reentrancy vulnerability",
  of severity High.
\<close>

theorem analyzeContractSecurity_rule_table:
  "issues (analyzeContractSecurity s) = map snd (filter (\<lambda>r. fst r s) security_rules)
   \<and> map snd security_rules =
       [reentrancy_finding, tx_origin_finding, unchecked_call_finding, timestamp_finding,
        selfdestruct_finding]
   \<and> (\<forall>r\<in>set security_rules.
        length (filter (\<lambda>f. issue f = issue (snd r)) (issues (analyzeContractSecurity s)))
          = (if fst r s then 1 else 0))
   \<and> issuesFound (analyzeContractSecurity s) = (issues (analyzeContractSecurity s) \<noteq> [])
   \<and> (js_includes s (lit ''call.value'') \<and> \<not> js_includes s (lit ''ReentrancyGuard'')
        \<longrightarrow> filter (\<lambda>f. issue f = lit ''Potential reentrancy vulnerability'')
              (issues (analyzeContractSecurity s)) = [reentrancy_finding]
            \<and> severity reentrancy_finding = lit ''High'')"
proof -
  have a: "issues (analyzeContractSecurity s) = map snd (filter (\<lambda>r. fst r s) security_rules)"
    by (rule issues_table)
  have b: "map snd security_rules =
       [reentrancy_finding, tx_origin_finding, unchecked_call_finding, timestamp_finding,
        selfdestruct_finding]"
    by (simp add: security_rules_def)
  have c: "length (filter (\<lambda>f. issue f = issue (snd r)) (issues (analyzeContractSecurity s)))
          = (if fst r s then 1 else 0)" if "r \<in> set security_rules" for r
  proof -
    have "filter (\<lambda>f. issue f = issue (snd r)) (map snd (filter (\<lambda>r. fst r s) security_rules))
        = map snd (filter (\<lambda>y. (issue \<circ> snd) y = (issue \<circ> snd) r)
            (filter (\<lambda>r. fst r s) security_rules))"
      by (simp add: filter_map comp_def)
    then show ?thesis
      using count_filter_distinct[OF finding_titles_distinct that, of "\<lambda>r. fst r s"]
      by (simp add: a)
  qed
  have d: "issuesFound (analyzeContractSecurity s) = (issues (analyzeContractSecurity s) \<noteq> [])"
    by (rule issuesFound_iff)
  have e: "filter (\<lambda>f. issue f = lit ''Potential reentrancy vulnerability'')
              (issues (analyzeContractSecurity s)) = [reentrancy_finding]
            \<and> severity reentrancy_finding = lit ''High''"
    if "js_includes s (lit ''call.value'') \<and> \<not> js_includes s (lit ''ReentrancyGuard'')"
    using that unfolding a
    by (simp add: security_rules_def reentrancy_finding_def tx_origin_finding_def
      unchecked_call_finding_def timestamp_finding_def selfdestruct_finding_def lit_def)
  from a b c d e show ?thesis by blast
qed

text \<open>A one-line source that sends value with a low-level call.\<close>

theorem analyzeContractSecurity_rule_table_witness:
  "js_includes (lit ''a.call.value(1)()'') (lit ''call.value'')
   \<and> \<not> js_includes (lit ''a.call.value(1)()'') (lit ''ReentrancyGuard'')
   \<and> filter (\<lambda>f. issue f = lit ''Potential reentrancy vulnerability'')
        (issues (analyzeContractSecurity (lit ''a.call.value(1)()''))) = [reentrancy_finding]
   \<and> length (filter (\<lambda>f. issue f = issue reentrancy_finding)
        (issues (analyzeContractSecurity (lit ''a.call.value(1)()'')))) = 1"
proof -
  let ?s = "lit ''a.call.value(1)()''"
  have h: "js_includes ?s (lit ''call.value'')" "\<not> js_includes ?s (lit ''ReentrancyGuard'')"
    by (simp_all add: lit_def)
  let ?r = "(\<lambda>s. js_includes s (lit ''call.value'') \<and> \<not> js_includes s (lit ''ReentrancyGuard''),
             reentrancy_finding)"
  have r: "?r \<in> set security_rules" by (simp add: security_rules_def)
  have "length (filter (\<lambda>f. issue f = issue (snd ?r)) (issues (analyzeContractSecurity ?s)))
          = (if fst ?r ?s then 1 else 0)"
    using analyzeContractSecurity_rule_table[of ?s] r by blast
  with h have "length (filter (\<lambda>f. issue f = issue reentrancy_finding)
        (issues (analyzeContractSecurity ?s))) = 1" by simp
  moreover have "filter (\<lambda>f. issue f = lit ''Potential reentrancy vulnerability'')
        (issues (analyzeContractSecurity ?s)) = [reentrancy_finding]"
    using analyzeContractSecurity_rule_table[of ?s] h by blast
  ultimately show ?thesis using h by simp
qed

section \<open>The standard detector\<close>

lemma get_prop_nullish: "nullish v \<Longrightarrow> get_prop v k = Inl TypeError"
  by (auto simp: nullish_def)

lemma get_prop_Inr: "\<not> nullish v \<Longrightarrow> \<exists>x. get_prop v k = Inr x"
  by (cases v) (auto simp: nullish_def)

lemma abi_filter_ok:
  "list_all (\<lambda>e. \<not> nullish e) es \<Longrightarrow> abi_filter es = Inr (filter is_function_entry es)"
proof (induction es)
  case Nil
  then show ?case by simp
next
  case (Cons e es)
  from Cons.prems have "\<not> nullish e" by simp
  then obtain t where t: "get_prop e (lit ''type'') = Inr t"
    using get_prop_Inr[of e "lit ''type''"] by blast
  with Cons show ?case by (simp add: thenE_def is_function_entry_def)
qed

lemma abi_filter_fail:
  "\<not> list_all (\<lambda>e. \<not> nullish e) es \<Longrightarrow> abi_filter es = Inl TypeError"
proof (induction es)
  case Nil
  then show ?case by simp
next
  case (Cons e es)
  show ?case
  proof (cases "nullish e")
    case True
    then show ?thesis by (simp add: thenE_def get_prop_nullish)
  next
    case False
    then obtain t where t: "get_prop e (lit ''type'') = Inr t"
      using get_prop_Inr[of e "lit ''type''"] by blast
    from False Cons have "abi_filter es = Inl TypeError" by simp
    with t show ?thesis by (simp add: thenE_def)
  qed
qed

lemma abi_names_ok:
  "list_all (\<lambda>e. \<not> nullish e) fs \<Longrightarrow>
   \<exists>ns. abi_names fs = Inr ns \<and> set ns = {n. \<exists>f\<in>set fs. get_prop f (lit ''name'') = Inr n}"
proof (induction fs)
  case Nil
  then show ?case by simp
next
  case (Cons f fs)
  from Cons.prems have "\<not> nullish f" by simp
  then obtain n where n: "get_prop f (lit ''name'') = Inr n"
    using get_prop_Inr[of f "lit ''name''"] by blast
  from Cons obtain ns where ns: "abi_names fs = Inr ns"
    "set ns = {n. \<exists>f\<in>set fs. get_prop f (lit ''name'') = Inr n}" by auto
  have "abi_names (f # fs) = Inr (n # ns)"
    using n ns by (simp add: thenE_def)
  moreover have "set (n # ns) = {m. \<exists>g\<in>set (f # fs). get_prop g (lit ''name'') = Inr m}"
    using n ns by auto
  ultimately show ?case by blast
qed

lemma detect_array_ok:
  assumes "list_all (\<lambda>e. \<not> nullish e) es"
  shows "\<exists>ns. detectContractStandards a (JArr es) = Inr (check_standards ns)
              \<and> set ns = function_entry_names (JArr es)"
proof -
  have "list_all (\<lambda>e. \<not> nullish e) (filter is_function_entry es)"
    using assms by (simp add: list_all_iff)
  then obtain ns where ns: "abi_names (filter is_function_entry es) = Inr ns"
    "set ns = {n. \<exists>f\<in>set (filter is_function_entry es). get_prop f (lit ''name'') = Inr n}"
    using abi_names_ok by blast
  have "detectContractStandards a (JArr es) = Inr (check_standards ns)"
    using ns abi_filter_ok[OF assms] by (simp add: detectContractStandards_def thenE_def)
  moreover have "set ns = function_entry_names (JArr es)"
    using ns by (auto simp: function_entry_names_def)
  ultimately show ?thesis by blast
qed

lemma detect_array_fail:
  "\<not> list_all (\<lambda>e. \<not> nullish e) es \<Longrightarrow> detectContractStandards a (JArr es) = Inl TypeError"
  by (simp add: detectContractStandards_def thenE_def abi_filter_fail)

lemma detect_non_array:
  "\<forall>es. v \<noteq> JArr es \<Longrightarrow>
   detectContractStandards a v = Inr \<lparr>isERC20 = False, isERC721 = False, isERC1155 = False\<rparr>"
  by (cases v) (auto simp: detectContractStandards_def)

lemma check_standards_iff:
  "isERC20 (check_standards ns) = (\<forall>f\<in>set erc20Functions. JStr f \<in> set ns)"
  "isERC721 (check_standards ns) = (\<forall>f\<in>set erc721Functions. JStr f \<in> set ns)"
  "isERC1155 (check_standards ns) = (\<forall>f\<in>set erc1155Functions. JStr f \<in> set ns)"
  by (simp_all add: check_standards_def list_all_iff)

lemma required_nonempty:
  "erc20Functions \<noteq> []" "erc721Functions \<noteq> []" "erc1155Functions \<noteq> []"
  by (simp_all add: erc20Functions_def erc721Functions_def erc1155Functions_def)

lemma detect_readable:
  assumes "abi_readable v"
  shows "\<exists>st. detectContractStandards a v = Inr st
     \<and> (isERC20 st \<longleftrightarrow> (\<forall>f\<in>set erc20Functions. JStr f \<in> function_entry_names v))
     \<and> (isERC721 st \<longleftrightarrow> (\<forall>f\<in>set erc721Functions. JStr f \<in> function_entry_names v))
     \<and> (isERC1155 st \<longleftrightarrow> (\<forall>f\<in>set erc1155Functions. JStr f \<in> function_entry_names v))"
proof (cases "\<exists>es. v = JArr es")
  case True
  then obtain es where v: "v = JArr es" by blast
  with assms have "list_all (\<lambda>e. \<not> nullish e) es" by (simp add: abi_readable_def)
  from detect_array_ok[OF this, of a] v show ?thesis
    by (auto simp: check_standards_iff)
next
  case False
  then have "\<forall>es. v \<noteq> JArr es" by blast
  from detect_non_array[OF this, of a] False required_nonempty show ?thesis
    by (cases v) (auto simp: function_entry_names_def)
qed

lemma detect_array_Inr:
  assumes "detectContractStandards a (JArr es) = Inr st"
  shows "\<exists>ns. st = check_standards ns \<and> set ns = function_entry_names (JArr es)"
proof -
  have "list_all (\<lambda>e. \<not> nullish e) es"
    using assms detect_array_fail[of es a] by auto
  from detect_array_ok[OF this, of a] assms show ?thesis by auto
qed

lemma function_entry_names_mono:
  "set es \<subseteq> set es' \<Longrightarrow> function_entry_names (JArr es) \<subseteq> function_entry_names (JArr es')"
  by (auto simp: function_entry_names_def)

lemma erc20_abi_standards:
  "detectContractStandards a erc20_abi =
     Inr \<lparr>isERC20 = True, isERC721 = False, isERC1155 = False\<rparr>"
  by (simp add: detectContractStandards_def erc20_abi_def erc20_entries_def erc20Functions_def
      thenE_def check_standards_def erc721Functions_def erc1155Functions_def lit_def)

lemma erc20_abi_readable: "abi_readable erc20_abi"
  by (simp add: abi_readable_def erc20_abi_def erc20_entries_def erc20Functions_def nullish_def)

text \<open>
  C3. For every ABI whose entries can be read (every ABI that is not an array, and every
  array without a \<open>null\<close> entry), \<open>detectContractStandards\<close> returns flags, and each
  flag holds exactly when every name of that standard's required list is the name of an
  entry of type \<open>function\<close>. The three checks do not exclude one another: an ABI with
  all ERC-20 and all ERC-721 names has both flags. On an array with a \<open>null\<close> entry the
  function throws a \<open>TypeError\<close>.
\<close>

theorem detectContractStandards_iff_required_names:
  "(abi_readable v \<longrightarrow>
      (\<exists>st. detectContractStandards a v = Inr st
        \<and> (isERC20 st \<longleftrightarrow> (\<forall>f\<in>set erc20Functions. JStr f \<in> function_entry_names v))
        \<and> (isERC721 st \<longleftrightarrow> (\<forall>f\<in>set erc721Functions. JStr f \<in> function_entry_names v))
        \<and> (isERC1155 st \<longleftrightarrow> (\<forall>f\<in>set erc1155Functions. JStr f \<in> function_entry_names v))
        \<and> ((\<forall>f\<in>set (erc20Functions @ erc721Functions). JStr f \<in> function_entry_names v)
             \<longrightarrow> isERC20 st \<and> isERC721 st)))
   \<and> (\<not> abi_readable v \<longrightarrow> detectContractStandards a v = Inl TypeError)"
proof (intro conjI impI)
  assume "abi_readable v"
  from detect_readable[OF this, of a] show "\<exists>st. detectContractStandards a v = Inr st
        \<and> (isERC20 st \<longleftrightarrow> (\<forall>f\<in>set erc20Functions. JStr f \<in> function_entry_names v))
        \<and> (isERC721 st \<longleftrightarrow> (\<forall>f\<in>set erc721Functions. JStr f \<in> function_entry_names v))
        \<and> (isERC1155 st \<longleftrightarrow> (\<forall>f\<in>set erc1155Functions. JStr f \<in> function_entry_names v))
        \<and> ((\<forall>f\<in>set (erc20Functions @ erc721Functions). JStr f \<in> function_entry_names v)
             \<longrightarrow> isERC20 st \<and> isERC721 st)"
    by auto
next
  assume "\<not> abi_readable v"
  then show "detectContractStandards a v = Inl TypeError"
    by (cases v) (auto simp: abi_readable_def detect_array_fail)
qed

text \<open>The ABI with the six ERC-20 functions, and an ABI whose only entry is \<open>null\<close>.\<close>

theorem detectContractStandards_iff_required_names_witness:
  "abi_readable erc20_abi
   \<and> detectContractStandards checksummed_address erc20_abi =
       Inr \<lparr>isERC20 = True, isERC721 = False, isERC1155 = False\<rparr>
   \<and> JStr (lit ''allowance'') \<in> function_entry_names erc20_abi
   \<and> \<not> abi_readable (JArr [JNull])
   \<and> detectContractStandards checksummed_address (JArr [JNull]) = Inl TypeError"
proof -
  note inst = detectContractStandards_iff_required_names[of erc20_abi checksummed_address]
  have ev: "detectContractStandards checksummed_address erc20_abi =
       Inr \<lparr>isERC20 = True, isERC721 = False, isERC1155 = False\<rparr>"
    by (rule erc20_abi_standards)
  from inst erc20_abi_readable ev
  have "\<forall>f\<in>set erc20Functions. JStr f \<in> function_entry_names erc20_abi"
    by auto
  then have n: "JStr (lit ''allowance'') \<in> function_entry_names erc20_abi"
    by (simp add: erc20Functions_def)
  have nr: "\<not> abi_readable (JArr [JNull])"
    by (simp add: abi_readable_def nullish_def)
  with detectContractStandards_iff_required_names[of "JArr [JNull]" checksummed_address]
  have "detectContractStandards checksummed_address (JArr [JNull]) = Inl TypeError"
    by blast
  with erc20_abi_readable ev n nr show ?thesis by simp
qed

text \<open>
  C9. The detector is monotone: a standard flag that holds for a list of function names
  holds for every list with at least those names, and a flag that \<open>detectContractStandards\<close>
  returns for an ABI holds in what it returns for an ABI with at least those entries.
\<close>

theorem detectContractStandards_monotone:
  "(set names \<subseteq> set names' \<longrightarrow>
      (isERC20 (check_standards names) \<longrightarrow> isERC20 (check_standards names'))
      \<and> (isERC721 (check_standards names) \<longrightarrow> isERC721 (check_standards names'))
      \<and> (isERC1155 (check_standards names) \<longrightarrow> isERC1155 (check_standards names')))
   \<and> (set es \<subseteq> set es' \<and> detectContractStandards a (JArr es) = Inr st
        \<and> detectContractStandards a (JArr es') = Inr st' \<longrightarrow>
      (isERC20 st \<longrightarrow> isERC20 st') \<and> (isERC721 st \<longrightarrow> isERC721 st')
      \<and> (isERC1155 st \<longrightarrow> isERC1155 st'))"
proof (intro conjI impI)
  assume "set names \<subseteq> set names'"
  then show "isERC20 (check_standards names) \<Longrightarrow> isERC20 (check_standards names')"
    "isERC721 (check_standards names) \<Longrightarrow> isERC721 (check_standards names')"
    "isERC1155 (check_standards names) \<Longrightarrow> isERC1155 (check_standards names')"
    by (auto simp: check_standards_iff)
next
  assume h: "set es \<subseteq> set es' \<and> detectContractStandards a (JArr es) = Inr st
        \<and> detectContractStandards a (JArr es') = Inr st'"
  then obtain ns ns' where ns: "st = check_standards ns" "set ns = function_entry_names (JArr es)"
    "st' = check_standards ns'" "set ns' = function_entry_names (JArr es')"
    using detect_array_Inr by blast
  with h have sub: "set ns \<subseteq> set ns'" using function_entry_names_mono by auto
  show "isERC20 st \<Longrightarrow> isERC20 st'" "isERC721 st \<Longrightarrow> isERC721 st'"
    "isERC1155 st \<Longrightarrow> isERC1155 st'"
    using sub ns by (auto simp: check_standards_iff)
qed

text \<open>The ERC-20 names and ABI, before and after \<open>ownerOf\<close> is added.\<close>

theorem detectContractStandards_monotone_witness:
  "isERC20 (check_standards (map JStr erc20Functions))
   \<and> isERC20 (check_standards (JStr (lit ''ownerOf'') # map JStr erc20Functions))
   \<and> detectContractStandards checksummed_address (JArr erc20_entries) =
       Inr \<lparr>isERC20 = True, isERC721 = False, isERC1155 = False\<rparr>
   \<and> detectContractStandards checksummed_address (JArr (ownerOf_entry # erc20_entries)) =
       Inr \<lparr>isERC20 = True, isERC721 = False, isERC1155 = False\<rparr>"
proof -
  let ?ns = "map JStr erc20Functions"
  let ?st = "\<lparr>isERC20 = True, isERC721 = False, isERC1155 = False\<rparr>"
  have a: "isERC20 (check_standards ?ns)"
    by (simp add: check_standards_def list_all_iff)
  have "set ?ns \<subseteq> set (JStr (lit ''ownerOf'') # ?ns)" by auto
  with a have b: "isERC20 (check_standards (JStr (lit ''ownerOf'') # ?ns))"
    using detectContractStandards_monotone[of ?ns "JStr (lit ''ownerOf'') # ?ns"] by blast
  have c: "detectContractStandards checksummed_address (JArr erc20_entries) = Inr ?st"
    using erc20_abi_standards by (simp add: erc20_abi_def)
  have d: "detectContractStandards checksummed_address (JArr (ownerOf_entry # erc20_entries))
      = Inr ?st"
    by (simp add: detectContractStandards_def ownerOf_entry_def erc20_entries_def
        erc20Functions_def thenE_def check_standards_def erc721Functions_def
        erc1155Functions_def lit_def)
  have "set erc20_entries \<subseteq> set (ownerOf_entry # erc20_entries)" by auto
  with c d have "isERC20 ?st \<longrightarrow> isERC20 ?st"
    using detectContractStandards_monotone[of _ _ erc20_entries
        "ownerOf_entry # erc20_entries" checksummed_address ?st ?st]
    by blast
  with a b c d show ?thesis by simp
qed

section \<open>The explorer lookups\<close>

lemma source_is_verified_true:
  "source_is_verified w src = Inr v \<Longrightarrow> truthy v \<Longrightarrow> v = JBool True \<and> truthy src"
  by (auto simp: source_is_verified_def thenE_def split: if_splits sum.splits)

lemma checkIfVerified_try_true:
  "checkIfVerified_try w a = Inr info \<Longrightarrow> truthy (vi_isVerified info)
   \<Longrightarrow> vi_isVerified info = JBool True \<and> truthy (vi_sourceCode info)"
  unfolding checkIfVerified_try_def thenE_def
  by (auto simp: not_verified_def split: sum.splits if_splits dest: source_is_verified_true)

lemma checkIfVerified_true:
  "truthy (vi_isVerified (checkIfVerified w a))
   \<Longrightarrow> vi_isVerified (checkIfVerified w a) = JBool True
       \<and> truthy (vi_sourceCode (checkIfVerified w a))"
  using checkIfVerified_try_true[of w a]
  by (auto simp: checkIfVerified_def not_verified_def split: sum.splits)

lemma checkIfContract_cases:
  "checkIfContract w fa =
     Inr (case getCode_check w fa of Inl e \<Rightarrow> False
          | Inr code \<Rightarrow> code \<noteq> lit ''0x'' \<and> code \<noteq> lit ''0x0'')"
  by (simp add: checkIfContract_def split: sum.splits)

lemma creation_timestamp_fail:
  assumes "(\<exists>e. get_transaction w txh = Inl e) \<or> (\<forall>bn. \<exists>e. get_blockreward w bn = Inl e)"
  shows "creation_timestamp w txh = JNull"
  using assms
proof
  assume "\<exists>e. get_transaction w txh = Inl e"
  then show ?thesis
    by (auto simp: creation_timestamp_def creation_timestamp_try_def thenE_def)
next
  assume "\<forall>bn. \<exists>e. get_blockreward w bn = Inl e"
  then have nb: "get_blockreward w bn \<noteq> Inr y" for bn y
    by (metis sum.distinct(1))
  show ?thesis
    unfolding creation_timestamp_def creation_timestamp_try_def thenE_def
    by (simp add: nb split: sum.splits)
qed

lemma creation_info_found:
  assumes "get_contractcreation w fa = Inr data"
    and "get_prop data (lit ''status'') = Inr (JStr (lit ''1''))"
    and "get_prop data (lit ''result'') = Inr res" and "truthy res"
    and "get_index0 res = Inr entry" and "truthy entry"
    and "get_prop entry (lit ''txHash'') = Inr txh"
    and "get_prop entry (lit ''contractCreator'') = Inr creator"
  shows "getContractCreationInfo w fa =
     Some \<lparr>ci_contractCreator = creator, ci_txHash = txh,
           ci_timestamp = creation_timestamp w txh\<rparr>"
  using assms
  by (simp add: getContractCreationInfo_def getContractCreationInfo_try_def thenE_def)

section \<open>The orchestrator\<close>

lemma analyze_account_Inr:
  "analyze_account w fa r0 = Inr r \<longleftrightarrow>
     (\<exists>b n. getBalance w fa = Inr b \<and> getTransactionCount w fa = Inr n
        \<and> r = r0\<lparr>error := Note (lit ''Address is not a contract''),
                 ethBalance := Some (fromWei w b), transactionCount := Some n\<rparr>)"
  by (auto simp: analyze_account_def thenE_def Let_def split: sum.splits)

lemma analyze_contract_Inr:
  assumes "analyze_contract w fa r0 = Inr r"
  shows "address r = address r0 \<and> isContract r = isContract r0
     \<and> isVerified r = vi_isVerified (checkIfVerified w fa)
     \<and> ethBalance r = ethBalance r0 \<and> transactionCount r = transactionCount r0
     \<and> (truthy (isVerified r) \<longrightarrow> standards r \<noteq> None \<and> probableType r = probableType r0)
     \<and> (\<not> truthy (isVerified r) \<longrightarrow> standards r = standards r0 \<and> probableType r \<noteq> None
          \<and> securityAnalysis r = securityAnalysis r0)"
  using assms unfolding analyze_contract_def thenE_def Let_def
  by (auto split: sum.splits option.splits if_splits)

lemma analyzeAddress_try_Inr:
  assumes "analyzeAddress_try w a = Inr r"
  shows "isAddress w a \<and>
    ((checkIfContract w (toChecksumAddress w a) = Inr False
       \<and> analyze_account w (toChecksumAddress w a)
            (initial_result (toChecksumAddress w a) False) = Inr r)
     \<or> (checkIfContract w (toChecksumAddress w a) = Inr True
       \<and> analyze_contract w (toChecksumAddress w a)
            (initial_result (toChecksumAddress w a) True) = Inr r))"
  using assms unfolding analyzeAddress_try_def thenE_def Let_def
  by (auto simp: checkIfContract_cases split: if_splits sum.splits)

lemma try_report_shape:
  assumes "analyzeAddress_try w a = Inr r"
  shows "address r = toChecksumAddress w a
     \<and> (standards r \<noteq> None \<longleftrightarrow> isVerified r = JBool True)
     \<and> (probableType r \<noteq> None \<longleftrightarrow> isContract r \<and> \<not> truthy (isVerified r))
     \<and> (truthy (isVerified r) \<longleftrightarrow> isVerified r = JBool True)"
proof -
  let ?fa = "toChecksumAddress w a"
  from analyzeAddress_try_Inr[OF assms] consider
    (account) "analyze_account w ?fa (initial_result ?fa False) = Inr r"
    | (contract) "analyze_contract w ?fa (initial_result ?fa True) = Inr r"
    by blast
  then show ?thesis
  proof cases
    case account
    then show ?thesis
      by (auto simp: analyze_account_Inr initial_result_def)
  next
    case contract
    from analyze_contract_Inr[OF this] checkIfVerified_true[of w ?fa]
    show ?thesis
      by (auto simp: initial_result_def)
  qed
qed

lemma account_try:
  assumes "isAddress w a"
    and "checkIfContract w (toChecksumAddress w a) = Inr False"
    and "getBalance w (toChecksumAddress w a) = Inr b"
    and "getTransactionCount w (toChecksumAddress w a) = Inr n"
  shows "analyzeAddress_try w a =
      Inr ((initial_result (toChecksumAddress w a) False)
             \<lparr>error := Note (lit ''Address is not a contract''),
              ethBalance := Some (fromWei w b), transactionCount := Some n\<rparr>)"
  using assms by (simp add: analyzeAddress_try_def thenE_def analyze_account_def)

text \<open>The scenarios, evaluated.\<close>

lemma scenario_addresses:
  "raw_address \<noteq> checksummed_address"
  "isAddress unreachable raw_address"
  "toChecksumAddress unreachable raw_address = checksummed_address"
  by (simp_all add: unreachable_def raw_address_def checksummed_address_def lit_def)

lemma account_env_fields:
  "isAddress account_env raw_address"
  "toChecksumAddress account_env raw_address = checksummed_address"
  "getCode_check account_env checksummed_address = Inr (lit ''0x'')"
  "getBalance account_env checksummed_address = Inr 1000000000000000000"
  "getTransactionCount account_env checksummed_address = Inr 7"
  "fromWei account_env 1000000000000000000 = lit ''1''"
  using scenario_addresses by (simp_all add: account_env_def unreachable_def)

lemma balance_down_env_fields:
  "isAddress balance_down_env raw_address"
  "toChecksumAddress balance_down_env raw_address = checksummed_address"
  "getCode_check balance_down_env checksummed_address = Inr (lit ''0x'')"
  "getBalance balance_down_env checksummed_address = Inl refused"
  using scenario_addresses by (simp_all add: balance_down_env_def unreachable_def)

lemma node_down_env_fields:
  "isAddress node_down_env raw_address"
  "toChecksumAddress node_down_env raw_address = checksummed_address"
  "getCode_check node_down_env checksummed_address = Inl refused"
  "getBalance node_down_env checksummed_address = Inr 1000000000000000000"
  "getTransactionCount node_down_env checksummed_address = Inr 7"
  "fromWei node_down_env 1000000000000000000 = lit ''1''"
  using scenario_addresses by (simp_all add: node_down_env_def unreachable_def)

lemma fetch_down_env_fields:
  "isAddress fetch_down_env raw_address"
  "toChecksumAddress fetch_down_env raw_address = checksummed_address"
  "getCode_check fetch_down_env checksummed_address = Inr (lit ''0x6080'')"
  "getCode_fetch fetch_down_env checksummed_address = Inl refused"
  using scenario_addresses by (simp_all add: fetch_down_env_def unreachable_def)

lemma fetch_down_try: "analyzeAddress_try fetch_down_env raw_address = Inl refused"
proof -
  have c: "checkIfContract fetch_down_env checksummed_address = Inr True"
    by (simp add: checkIfContract_cases fetch_down_env_fields lit_def)
  have "analyze_contract fetch_down_env checksummed_address r0 = Inl refused" for r0
    by (simp add: analyze_contract_def thenE_def Let_def fetch_down_env_fields)
  with c show ?thesis
    by (simp add: analyzeAddress_try_def thenE_def fetch_down_env_fields)
qed

lemma verified_env_fields:
  "isAddress verified_env raw_address"
  "toChecksumAddress verified_env raw_address = checksummed_address"
  "getCode_check verified_env checksummed_address = Inr (lit ''0x6080'')"
  "getCode_fetch verified_env checksummed_address = Inr (lit ''0x6080'')"
  "get_contractcreation verified_env checksummed_address = Inr creation_response"
  "get_transaction verified_env (JStr (lit ''0xcd'')) = Inl refused"
  using scenario_addresses by (simp_all add: verified_env_def unreachable_def)

lemma creation_response_fields:
  "get_prop creation_response (lit ''status'') = Inr (JStr (lit ''1''))"
  "get_prop creation_response (lit ''result'') =
     Inr (JArr [JObj [(lit ''contractCreator'', JStr (lit ''0xab'')),
                      (lit ''txHash'', JStr (lit ''0xcd''))]])"
  "get_prop (JObj [(lit ''contractCreator'', JStr (lit ''0xab'')),
                   (lit ''txHash'', JStr (lit ''0xcd''))]) (lit ''txHash'')
     = Inr (JStr (lit ''0xcd''))"
  "get_prop (JObj [(lit ''contractCreator'', JStr (lit ''0xab'')),
                   (lit ''txHash'', JStr (lit ''0xcd''))]) (lit ''contractCreator'')
     = Inr (JStr (lit ''0xab''))"
  by (simp_all add: creation_response_def lit_def)

lemma verified_env_check:
  "checkIfVerified verified_env checksummed_address =
     \<lparr>vi_isVerified = JBool True, vi_contractName = JStr (lit ''T''),
      vi_sourceCode = JStr (lit ''contract T {}''), vi_abi = erc20_abi\<rparr>"
  by (simp add: checkIfVerified_def checkIfVerified_try_def thenE_def verified_env_def
      unreachable_def source_response_def source_is_verified_def js_gt2_def lit_def)

lemma verified_env_security:
  "call_analyzeContractSecurity (JStr (lit ''contract T {}'')) =
     Inr \<lparr>issuesFound = False, issues = []\<rparr>"
  by (simp add: call_analyzeContractSecurity_def analyzeContractSecurity_def lit_def)

text \<open>
  C1. In every report of \<open>analyzeAddress\<close>, \<open>standards\<close> is present exactly when
  \<open>isVerified\<close> is \<open>true\<close>, \<open>probableType\<close> is present exactly when \<open>isContract\<close>
  holds and \<open>isVerified\<close> is falsy, and the two are never present together.
  \<open>isVerified\<close> is truthy only as the boolean \<open>true\<close>.
\<close>

theorem report_standards_or_probableType:
  "(standards (analyzeAddress w a) \<noteq> None \<longleftrightarrow> isVerified (analyzeAddress w a) = JBool True)
   \<and> (probableType (analyzeAddress w a) \<noteq> None \<longleftrightarrow>
        isContract (analyzeAddress w a) \<and> \<not> truthy (isVerified (analyzeAddress w a)))
   \<and> \<not> (standards (analyzeAddress w a) \<noteq> None \<and> probableType (analyzeAddress w a) \<noteq> None)
   \<and> (truthy (isVerified (analyzeAddress w a)) \<longleftrightarrow> isVerified (analyzeAddress w a) = JBool True)"
proof (cases "analyzeAddress_try w a")
  case (Inl e)
  then show ?thesis by (simp add: analyzeAddress_def fallback_report_def)
next
  case (Inr r)
  from try_report_shape[OF this] Inr show ?thesis
    by (auto simp: analyzeAddress_def)
qed

text \<open>The verified ERC-20 contract: it has standards and no probable type.\<close>

theorem report_standards_or_probableType_witness:
  "isVerified (analyzeAddress verified_env raw_address) = JBool True
   \<and> standards (analyzeAddress verified_env raw_address) \<noteq> None
   \<and> probableType (analyzeAddress verified_env raw_address) = None"
proof -
  have c: "checkIfContract verified_env checksummed_address = Inr True"
    by (simp add: checkIfContract_cases verified_env_fields lit_def)
  have "\<exists>r. analyze_contract verified_env checksummed_address
          (initial_result checksummed_address True) = Inr r"
    by (simp add: analyze_contract_def thenE_def Let_def verified_env_fields
        verified_env_check erc20_abi_standards verified_env_security)
  then obtain r where r: "analyze_contract verified_env checksummed_address
          (initial_result checksummed_address True) = Inr r" by blast
  with c have t: "analyzeAddress verified_env raw_address = r"
    by (simp add: analyzeAddress_def analyzeAddress_try_def thenE_def verified_env_fields)
  from analyze_contract_Inr[OF r] have "isVerified r = JBool True"
    by (simp add: verified_env_check)
  with t have v: "isVerified (analyzeAddress verified_env raw_address) = JBool True"
    by simp
  with report_standards_or_probableType[of verified_env raw_address] show ?thesis
    by auto
qed

text \<open>
  C7. When the creation lookup of \<open>getContractCreationInfo\<close> answers with a creator and
  a transaction hash and the transaction lookup or the block lookup is refused, the
  function returns the creator and the hash with a \<open>null\<close> timestamp. The audit of a
  verified contract then runs to its end: the report carries the creator, the hash, a
  \<open>null\<close> creation timestamp, and the name, source, ABI, standards and security
  analysis of the verification stage.
\<close>

theorem creation_timestamp_failure_is_local:
  assumes "get_contractcreation w (toChecksumAddress w a) = Inr data"
    and "get_prop data (lit ''status'') = Inr (JStr (lit ''1''))"
    and "get_prop data (lit ''result'') = Inr res" and "truthy res"
    and "get_index0 res = Inr entry" and "truthy entry"
    and "get_prop entry (lit ''txHash'') = Inr txh"
    and "get_prop entry (lit ''contractCreator'') = Inr creator"
    and "(\<exists>e. get_transaction w txh = Inl e) \<or> (\<forall>bn. \<exists>e. get_blockreward w bn = Inl e)"
  shows "getContractCreationInfo w (toChecksumAddress w a) =
       Some \<lparr>ci_contractCreator = creator, ci_txHash = txh, ci_timestamp = JNull\<rparr>
     \<and> (isAddress w a
         \<and> getCode_check w (toChecksumAddress w a) = Inr code
         \<and> code \<noteq> lit ''0x'' \<and> code \<noteq> lit ''0x0''
         \<and> getCode_fetch w (toChecksumAddress w a) = Inr bytecode
         \<and> truthy (vi_isVerified (checkIfVerified w (toChecksumAddress w a)))
         \<and> detectContractStandards (toChecksumAddress w a)
              (vi_abi (checkIfVerified w (toChecksumAddress w a))) = Inr st
         \<and> call_analyzeContractSecurity
              (vi_sourceCode (checkIfVerified w (toChecksumAddress w a))) = Inr sa
        \<longrightarrow> analyzeAddress w a =
             \<lparr>address = toChecksumAddress w a, isContract = True, isVerified = JBool True,
              contractName = vi_contractName (checkIfVerified w (toChecksumAddress w a)),
              contractCreator = creator, creationTx = txh, creationTimestamp = JNull,
              contractCode = Some bytecode,
              sourceCode = vi_sourceCode (checkIfVerified w (toChecksumAddress w a)),
              abi = vi_abi (checkIfVerified w (toChecksumAddress w a)),
              error = NoNote, ethBalance = None, transactionCount = None,
              standards = Some st, probableType = None, securityAnalysis = Some sa\<rparr>)"
proof (intro conjI impI)
  let ?fa = "toChecksumAddress w a"
  show info: "getContractCreationInfo w ?fa =
       Some \<lparr>ci_contractCreator = creator, ci_txHash = txh, ci_timestamp = JNull\<rparr>"
    using creation_info_found[OF assms(1-8)] creation_timestamp_fail[OF assms(9)] by simp
  assume h: "isAddress w a
         \<and> getCode_check w ?fa = Inr code
         \<and> code \<noteq> lit ''0x'' \<and> code \<noteq> lit ''0x0''
         \<and> getCode_fetch w ?fa = Inr bytecode
         \<and> truthy (vi_isVerified (checkIfVerified w ?fa))
         \<and> detectContractStandards ?fa (vi_abi (checkIfVerified w ?fa)) = Inr st
         \<and> call_analyzeContractSecurity (vi_sourceCode (checkIfVerified w ?fa)) = Inr sa"
  then have c: "checkIfContract w ?fa = Inr True"
    by (simp add: checkIfContract_cases)
  from h checkIfVerified_true[of w ?fa]
  have v: "vi_isVerified (checkIfVerified w ?fa) = JBool True"
    "truthy (vi_sourceCode (checkIfVerified w ?fa))" by auto
  have "analyze_contract w ?fa (initial_result ?fa True) =
        Inr \<lparr>address = ?fa, isContract = True, isVerified = JBool True,
              contractName = vi_contractName (checkIfVerified w ?fa),
              contractCreator = creator, creationTx = txh, creationTimestamp = JNull,
              contractCode = Some bytecode,
              sourceCode = vi_sourceCode (checkIfVerified w ?fa),
              abi = vi_abi (checkIfVerified w ?fa),
              error = NoNote, ethBalance = None, transactionCount = None,
              standards = Some st, probableType = None, securityAnalysis = Some sa\<rparr>"
    using h info v by (simp add: analyze_contract_def thenE_def initial_result_def Let_def)
  with h c show "analyzeAddress w a =
             \<lparr>address = ?fa, isContract = True, isVerified = JBool True,
              contractName = vi_contractName (checkIfVerified w ?fa),
              contractCreator = creator, creationTx = txh, creationTimestamp = JNull,
              contractCode = Some bytecode,
              sourceCode = vi_sourceCode (checkIfVerified w ?fa),
              abi = vi_abi (checkIfVerified w ?fa),
              error = NoNote, ethBalance = None, transactionCount = None,
              standards = Some st, probableType = None, securityAnalysis = Some sa\<rparr>"
    by (simp add: analyzeAddress_def analyzeAddress_try_def thenE_def Let_def)
qed

text \<open>The verified ERC-20 contract, with the transaction and block lookups refused.\<close>

theorem creation_timestamp_failure_is_local_witness:
  "getContractCreationInfo verified_env checksummed_address =
       Some \<lparr>ci_contractCreator = JStr (lit ''0xab''), ci_txHash = JStr (lit ''0xcd''),
             ci_timestamp = JNull\<rparr>
   \<and> analyzeAddress verified_env raw_address =
       \<lparr>address = checksummed_address, isContract = True, isVerified = JBool True,
        contractName = JStr (lit ''T''),
        contractCreator = JStr (lit ''0xab''), creationTx = JStr (lit ''0xcd''),
        creationTimestamp = JNull, contractCode = Some (lit ''0x6080''),
        sourceCode = JStr (lit ''contract T {}''), abi = erc20_abi,
        error = NoNote, ethBalance = None, transactionCount = None,
        standards = Some \<lparr>isERC20 = True, isERC721 = False, isERC1155 = False\<rparr>,
        probableType = None,
        securityAnalysis = Some \<lparr>issuesFound = False, issues = []\<rparr>\<rparr>"
proof -
  let ?entry = "JObj [(lit ''contractCreator'', JStr (lit ''0xab'')),
                      (lit ''txHash'', JStr (lit ''0xcd''))]"
  have 1: "get_contractcreation verified_env (toChecksumAddress verified_env raw_address)
      = Inr creation_response"
    by (simp add: verified_env_fields)
  have 9: "(\<exists>e. get_transaction verified_env (JStr (lit ''0xcd'')) = Inl e)
      \<or> (\<forall>bn. \<exists>e. get_blockreward verified_env bn = Inl e)"
    by (simp add: verified_env_fields)
  have pre: "isAddress verified_env raw_address
     \<and> getCode_check verified_env (toChecksumAddress verified_env raw_address)
          = Inr (lit ''0x6080'')
     \<and> lit ''0x6080'' \<noteq> lit ''0x'' \<and> lit ''0x6080'' \<noteq> lit ''0x0''
     \<and> getCode_fetch verified_env (toChecksumAddress verified_env raw_address)
          = Inr (lit ''0x6080'')
     \<and> truthy (vi_isVerified
          (checkIfVerified verified_env (toChecksumAddress verified_env raw_address)))
     \<and> detectContractStandards (toChecksumAddress verified_env raw_address)
          (vi_abi (checkIfVerified verified_env (toChecksumAddress verified_env raw_address)))
         = Inr \<lparr>isERC20 = True, isERC721 = False, isERC1155 = False\<rparr>
     \<and> call_analyzeContractSecurity
          (vi_sourceCode
            (checkIfVerified verified_env (toChecksumAddress verified_env raw_address)))
         = Inr \<lparr>issuesFound = False, issues = []\<rparr>"
    by (simp add: verified_env_fields verified_env_check erc20_abi_standards
        verified_env_security) (simp add: lit_def)
  from creation_timestamp_failure_is_local[of verified_env raw_address creation_response
      "JArr [?entry]" ?entry "JStr (lit ''0xcd'')" "JStr (lit ''0xab'')"
      "lit ''0x6080''" "lit ''0x6080''"
      "\<lparr>isERC20 = True, isERC721 = False, isERC1155 = False\<rparr>"
      "\<lparr>issuesFound = False, issues = []\<rparr>",
      OF 1 creation_response_fields(1) creation_response_fields(2) _ _ _
         creation_response_fields(3) creation_response_fields(4) 9]
    pre
  show ?thesis
    by (simp add: verified_env_fields verified_env_check)
qed

text \<open>
  The account whose balance cannot be read: \<open>getCode\<close> answers \<open>0x\<close>, and the report
  has neither \<open>ethBalance\<close> nor \<open>transactionCount\<close>.
\<close>

theorem account_balance_refused_counterexample:
  "getCode_check balance_down_env (toChecksumAddress balance_down_env raw_address)
     = Inr (lit ''0x'')
   \<and> isContract (analyzeAddress balance_down_env raw_address) = False
   \<and> ethBalance (analyzeAddress balance_down_env raw_address) = None
   \<and> transactionCount (analyzeAddress balance_down_env raw_address) = None"
proof -
  have c: "checkIfContract balance_down_env checksummed_address = Inr False"
    by (simp add: checkIfContract_cases balance_down_env_fields)
  have "analyzeAddress_try balance_down_env raw_address = Inl refused"
    using c by (simp add: analyzeAddress_try_def thenE_def analyze_account_def
        balance_down_env_fields)
  then show ?thesis
    by (simp add: analyzeAddress_def fallback_report_def balance_down_env_fields)
qed

text \<open>
  C2. For every address for which \<open>getCode\<close> returns \<open>0x\<close> or \<open>0x0\<close>, the report has
  \<open>isContract\<close> false and no \<open>standards\<close>, \<open>probableType\<close> or \<open>securityAnalysis\<close>.
  When the address is valid and the balance and the transaction count are read, the
  report has \<open>ethBalance\<close> and \<open>transactionCount\<close>; otherwise it has neither.
\<close>

theorem account_report_fields:
  assumes "getCode_check w (toChecksumAddress w a) = Inr code"
    and "code = lit ''0x'' \<or> code = lit ''0x0''"
  shows "\<not> isContract (analyzeAddress w a)
     \<and> standards (analyzeAddress w a) = None
     \<and> probableType (analyzeAddress w a) = None
     \<and> securityAnalysis (analyzeAddress w a) = None
     \<and> (isAddress w a \<and> getBalance w (toChecksumAddress w a) = Inr b
          \<and> getTransactionCount w (toChecksumAddress w a) = Inr n
        \<longrightarrow> ethBalance (analyzeAddress w a) = Some (fromWei w b)
            \<and> transactionCount (analyzeAddress w a) = Some n)
     \<and> (\<not> (isAddress w a \<and> (\<exists>b. getBalance w (toChecksumAddress w a) = Inr b)
             \<and> (\<exists>n. getTransactionCount w (toChecksumAddress w a) = Inr n))
        \<longrightarrow> ethBalance (analyzeAddress w a) = None
            \<and> transactionCount (analyzeAddress w a) = None)"
proof -
  let ?fa = "toChecksumAddress w a"
  have c: "checkIfContract w ?fa = Inr False"
    using assms by (auto simp: checkIfContract_cases)
  show ?thesis
    using c unfolding analyzeAddress_def analyzeAddress_try_def thenE_def Let_def
      analyze_account_def
    by (auto simp: fallback_report_def initial_result_def split: sum.splits)
qed

text \<open>The account with one ether and seven transactions, and the one that cannot be read.\<close>

theorem account_report_fields_witness:
  "getCode_check account_env (toChecksumAddress account_env raw_address) = Inr (lit ''0x'')
   \<and> isContract (analyzeAddress account_env raw_address) = False
   \<and> standards (analyzeAddress account_env raw_address) = None
   \<and> ethBalance (analyzeAddress account_env raw_address) = Some (lit ''1'')
   \<and> transactionCount (analyzeAddress account_env raw_address) = Some 7
   \<and> ethBalance (analyzeAddress balance_down_env raw_address) = None"
proof -
  have 1: "getCode_check account_env (toChecksumAddress account_env raw_address)
      = Inr (lit ''0x'')"
    by (simp add: account_env_fields)
  have 2: "getCode_check balance_down_env (toChecksumAddress balance_down_env raw_address)
      = Inr (lit ''0x'')"
    by (simp add: balance_down_env_fields)
  have ok: "isAddress account_env raw_address
      \<and> getBalance account_env (toChecksumAddress account_env raw_address)
          = Inr 1000000000000000000
      \<and> getTransactionCount account_env (toChecksumAddress account_env raw_address) = Inr 7"
    by (simp add: account_env_fields)
  have ko: "\<not> (isAddress balance_down_env raw_address
      \<and> (\<exists>b. getBalance balance_down_env (toChecksumAddress balance_down_env raw_address)
            = Inr b)
      \<and> (\<exists>n. getTransactionCount balance_down_env
            (toChecksumAddress balance_down_env raw_address) = Inr n))"
    by (simp add: balance_down_env_fields)
  from account_report_fields[OF 1, of 1000000000000000000 7] ok
    account_report_fields[OF 2] ko 1
  show ?thesis by (simp add: account_env_fields)
qed

text \<open>
  C10. For every valid address whose code is \<open>0x\<close> or \<open>0x0\<close> and whose balance and
  transaction count are read, the \<open>try\<close> block returns the report, and its \<open>error\<close>
  is the string "Address is not a contract".
\<close>

theorem account_report_error_note:
  assumes "isAddress w a"
    and "getCode_check w (toChecksumAddress w a) = Inr code"
    and "code = lit ''0x'' \<or> code = lit ''0x0''"
    and "getBalance w (toChecksumAddress w a) = Inr b"
    and "getTransactionCount w (toChecksumAddress w a) = Inr n"
  shows "analyzeAddress_try w a = Inr (analyzeAddress w a)
     \<and> \<not> isContract (analyzeAddress w a)
     \<and> error (analyzeAddress w a) = Note (lit ''Address is not a contract'')
     \<and> error (analyzeAddress w a) \<noteq> NoNote"
proof -
  let ?fa = "toChecksumAddress w a"
  have c: "checkIfContract w ?fa = Inr False"
    using assms(2,3) by (auto simp: checkIfContract_cases)
  from account_try[OF assms(1) c assms(4,5)] show ?thesis
    by (simp add: analyzeAddress_def initial_result_def)
qed

text \<open>The account with one ether and seven transactions.\<close>

theorem account_report_error_note_witness:
  "isAddress account_env raw_address
   \<and> getCode_check account_env (toChecksumAddress account_env raw_address) = Inr (lit ''0x'')
   \<and> analyzeAddress_try account_env raw_address = Inr (analyzeAddress account_env raw_address)
   \<and> error (analyzeAddress account_env raw_address) = Note (lit ''Address is not a contract'')"
proof -
  have 1: "isAddress account_env raw_address" by (simp add: account_env_fields)
  have 2: "getCode_check account_env (toChecksumAddress account_env raw_address)
      = Inr (lit ''0x'')"
    by (simp add: account_env_fields)
  have 4: "getBalance account_env (toChecksumAddress account_env raw_address)
      = Inr 1000000000000000000"
    by (simp add: account_env_fields)
  have 5: "getTransactionCount account_env (toChecksumAddress account_env raw_address) = Inr 7"
    by (simp add: account_env_fields)
  from account_report_error_note[OF 1 2 _ 4 5] 1 2 show ?thesis by simp
qed

text \<open>
  The node that refuses the \<open>getCode\<close> of the contract check: the helper returns
  \<open>false\<close>, the \<open>try\<close> block returns the report of an account, and the \<open>error\<close>
  of that report is not the message of the refusal.
\<close>

theorem checkIfContract_refused_counterexample:
  "getCode_check node_down_env (toChecksumAddress node_down_env raw_address) = Inl refused
   \<and> checkIfContract node_down_env (toChecksumAddress node_down_env raw_address) = Inr False
   \<and> analyzeAddress_try node_down_env raw_address
       = Inr (analyzeAddress node_down_env raw_address)
   \<and> error (analyzeAddress node_down_env raw_address) = Note (lit ''Address is not a contract'')
   \<and> error (analyzeAddress node_down_env raw_address) \<noteq> message refused
   \<and> analyzeAddress node_down_env raw_address \<noteq> fallback_report raw_address refused
   \<and> ethBalance (analyzeAddress node_down_env raw_address) = Some (lit ''1'')"
proof -
  have c: "checkIfContract node_down_env checksummed_address = Inr False"
    by (simp add: checkIfContract_cases node_down_env_fields)
  have t: "analyzeAddress_try node_down_env raw_address =
      Inr ((initial_result checksummed_address False)
             \<lparr>error := Note (lit ''Address is not a contract''),
              ethBalance := Some (lit ''1''), transactionCount := Some 7\<rparr>)"
    using account_try[of node_down_env raw_address 1000000000000000000 7] c
    by (simp add: node_down_env_fields)
  have "ethBalance (analyzeAddress node_down_env raw_address) = Some (lit ''1'')"
    using t by (simp add: analyzeAddress_def)
  moreover from this
  have "analyzeAddress node_down_env raw_address \<noteq> fallback_report raw_address refused"
    by (auto simp: fallback_report_def)
  ultimately show ?thesis
    using t c by (simp add: analyzeAddress_def node_down_env_fields initial_result_def
        message_def refused_def)
qed

text \<open>
  C6. When the \<open>getCode\<close> call of the contract check is refused, \<open>checkIfContract\<close>
  catches the error and returns \<open>false\<close>, so the report has \<open>isContract\<close> false; for
  a valid address whose balance and transaction count are read it is the report of an
  account, with \<open>error\<close> "Address is not a contract", \<open>ethBalance\<close> and
  \<open>transactionCount\<close>.
\<close>

theorem checkIfContract_catches_getCode_error:
  assumes "getCode_check w (toChecksumAddress w a) = Inl e"
  shows "checkIfContract w (toChecksumAddress w a) = Inr False
     \<and> \<not> isContract (analyzeAddress w a)
     \<and> (isAddress w a \<and> getBalance w (toChecksumAddress w a) = Inr b
          \<and> getTransactionCount w (toChecksumAddress w a) = Inr n
        \<longrightarrow> analyzeAddress w a =
              (initial_result (toChecksumAddress w a) False)
                \<lparr>error := Note (lit ''Address is not a contract''),
                 ethBalance := Some (fromWei w b), transactionCount := Some n\<rparr>)"
proof -
  let ?fa = "toChecksumAddress w a"
  have c: "checkIfContract w ?fa = Inr False"
    using assms by (auto simp: checkIfContract_cases)
  show ?thesis
    using c unfolding analyzeAddress_def analyzeAddress_try_def thenE_def Let_def
      analyze_account_def
    by (auto simp: fallback_report_def initial_result_def split: sum.splits)
qed

text \<open>The node that refuses only the \<open>getCode\<close> of the contract check.\<close>

theorem checkIfContract_catches_getCode_error_witness:
  "getCode_check node_down_env (toChecksumAddress node_down_env raw_address) = Inl refused
   \<and> checkIfContract node_down_env (toChecksumAddress node_down_env raw_address) = Inr False
   \<and> analyzeAddress node_down_env raw_address =
       (initial_result checksummed_address False)
         \<lparr>error := Note (lit ''Address is not a contract''),
          ethBalance := Some (lit ''1''), transactionCount := Some 7\<rparr>"
proof -
  have 1: "getCode_check node_down_env (toChecksumAddress node_down_env raw_address)
      = Inl refused"
    by (simp add: node_down_env_fields)
  have ok: "isAddress node_down_env raw_address
      \<and> getBalance node_down_env (toChecksumAddress node_down_env raw_address)
          = Inr 1000000000000000000
      \<and> getTransactionCount node_down_env (toChecksumAddress node_down_env raw_address)
          = Inr 7"
    by (simp add: node_down_env_fields)
  from checkIfContract_catches_getCode_error[OF 1, of 1000000000000000000 7] ok 1
  show ?thesis by (simp add: node_down_env_fields)
qed

text \<open>
  The contract whose code cannot be fetched a second time: the report comes from the
  \<open>catch\<close> and its \<open>address\<close> is the lower-case input, not the checksummed form.
\<close>

theorem fallback_address_raw_counterexample:
  "isAddress fetch_down_env raw_address
   \<and> toChecksumAddress fetch_down_env raw_address = checksummed_address
   \<and> address (analyzeAddress fetch_down_env raw_address) = raw_address
   \<and> address (analyzeAddress fetch_down_env raw_address) \<noteq> checksummed_address"
  using fetch_down_try scenario_addresses(1)
  by (simp add: analyzeAddress_def fallback_report_def fetch_down_env_fields)

text \<open>
  C8. The \<open>address\<close> of a report that the \<open>try\<close> block of \<open>analyzeAddress\<close> returns
  is the checksummed form of the input; the \<open>address\<close> of the report that the
  \<open>catch\<close> builds is the input string as given.
\<close>

theorem report_address_by_path:
  "(analyzeAddress_try w a = Inr r \<longrightarrow>
      analyzeAddress w a = r \<and> address (analyzeAddress w a) = toChecksumAddress w a)
   \<and> (analyzeAddress_try w a = Inl e \<longrightarrow>
      analyzeAddress w a = fallback_report a e \<and> address (analyzeAddress w a) = a)"
  using try_report_shape[of w a r]
  by (auto simp: analyzeAddress_def fallback_report_def)

text \<open>The account, whose report is returned by the \<open>try\<close>; the contract above.\<close>

theorem report_address_by_path_witness:
  "address (analyzeAddress account_env raw_address) = checksummed_address
   \<and> analyzeAddress fetch_down_env raw_address = fallback_report raw_address refused"
proof -
  have c: "checkIfContract account_env (toChecksumAddress account_env raw_address) = Inr False"
    by (simp add: checkIfContract_cases account_env_fields)
  have fields: "isAddress account_env raw_address"
    "getBalance account_env (toChecksumAddress account_env raw_address)
       = Inr 1000000000000000000"
    "getTransactionCount account_env (toChecksumAddress account_env raw_address) = Inr 7"
    by (simp_all add: account_env_fields)
  note t = account_try[OF fields(1) c fields(2,3)]
  from report_address_by_path[of account_env raw_address _ refused] t
  have "address (analyzeAddress account_env raw_address)
      = toChecksumAddress account_env raw_address"
    by blast
  moreover from report_address_by_path[of fetch_down_env raw_address "initial_result raw_address False" refused]
    fetch_down_try
  have "analyzeAddress fetch_down_env raw_address = fallback_report raw_address refused"
    by blast
  ultimately show ?thesis by (simp add: account_env_fields)
qed

end
